theory Spec2Isabelle
  imports Complex_Main "HOL-Library.Char_ord" "HOL-Library.List_Lexorder"
begin

section \<open>Python strings and bytes\<close>

text \<open>
  The output of a process is a \<open>bytes\<close> object: a \<open>string\<close>, whose characters are
  bytes. A Python \<open>str\<close> is modelled by the bytes of its UTF-8 encoding, again a
  \<open>string\<close>. The string operations the benchmark scripts use are the same on the encoding
  as on the code points: equality, \<open>s.startswith(p)\<close>, \<open>s.split(c)\<close> and \<open>rfind\<close> for an
  ASCII character \<open>c\<close> (an ASCII byte is never part of a longer sequence), concatenation,
  and the order of \<open>sorted\<close> (UTF-8 keeps the order of the code points). A \<open>str\<close> with a
  lone surrogate has no encoding and is not modelled.

  \<open>b.decode(sys.getdefaultencoding())\<close> is the strict UTF-8 decoder: it raises
  \<open>UnicodeDecodeError\<close> (\<open>None\<close> below) unless the bytes are well-formed UTF-8 (no
  overlong form, no surrogate, nothing above U+10FFFF), and then the \<open>str\<close> it returns
  has these very bytes as its encoding.
\<close>

definition nl :: char where
  "nl = CHR 0x0A"

definition startswith :: "string \<Rightarrow> string \<Rightarrow> bool" where
  "startswith s p = (take (length p) s = p)"

fun py_split :: "char \<Rightarrow> string \<Rightarrow> string list" where
  "py_split c [] = [[]]"
| "py_split c (x # xs) =
     (if x = c then [] # py_split c xs
      else (case py_split c xs of [] \<Rightarrow> [[x]] | w # ws \<Rightarrow> (x # w) # ws))"

definition continuation :: "nat \<Rightarrow> bool" where
  "continuation b = (0x80 \<le> b \<and> b \<le> 0xBF)"

fun valid_utf8 :: "nat list \<Rightarrow> bool" where
  "valid_utf8 [] = True"
| "valid_utf8 (b # bs) =
     (if b < 0x80 then valid_utf8 bs
      else if 0xC2 \<le> b \<and> b \<le> 0xDF then
        (case bs of
           c1 # r \<Rightarrow> continuation c1 \<and> valid_utf8 r
         | _ \<Rightarrow> False)
      else if 0xE0 \<le> b \<and> b \<le> 0xEF then
        (case bs of
           c1 # c2 # r \<Rightarrow>
             (if b = 0xE0 then 0xA0 \<le> c1 \<and> c1 \<le> 0xBF
              else if b = 0xED then 0x80 \<le> c1 \<and> c1 \<le> 0x9F
              else continuation c1)
             \<and> continuation c2 \<and> valid_utf8 r
         | _ \<Rightarrow> False)
      else if 0xF0 \<le> b \<and> b \<le> 0xF4 then
        (case bs of
           c1 # c2 # c3 # r \<Rightarrow>
             (if b = 0xF0 then 0x90 \<le> c1 \<and> c1 \<le> 0xBF
              else if b = 0xF4 then 0x80 \<le> c1 \<and> c1 \<le> 0x8F
              else continuation c1)
             \<and> continuation c2 \<and> continuation c3 \<and> valid_utf8 r
         | _ \<Rightarrow> False)
      else False)"

definition decode :: "string \<Rightarrow> string option" where
  "decode b = (if valid_utf8 (map of_char b) then Some b else None)"

text \<open>
  The whitespace of \<open>str.strip()\<close> and \<open>str.rstrip()\<close>, each code point by its encoding:
  U+0009 to U+000D, U+001C to U+001F, U+0020, U+0085, U+00A0, U+1680, U+2000 to U+200A,
  U+2028, U+2029, U+202F, U+205F and U+3000.
\<close>

definition whitespace :: "string list" where
  "whitespace =
     map (\<lambda>c. [c])
       [CHR 0x09, CHR 0x0A, CHR 0x0B, CHR 0x0C, CHR 0x0D,
        CHR 0x1C, CHR 0x1D, CHR 0x1E, CHR 0x1F, CHR 0x20]
     @ [[CHR 0xC2, CHR 0x85], [CHR 0xC2, CHR 0xA0], [CHR 0xE1, CHR 0x9A, CHR 0x80]]
     @ map (\<lambda>c. [CHR 0xE2, CHR 0x80, c])
         [CHR 0x80, CHR 0x81, CHR 0x82, CHR 0x83, CHR 0x84, CHR 0x85, CHR 0x86, CHR 0x87,
          CHR 0x88, CHR 0x89, CHR 0x8A, CHR 0xA8, CHR 0xA9, CHR 0xAF]
     @ [[CHR 0xE2, CHR 0x81, CHR 0x9F], [CHR 0xE3, CHR 0x80, CHR 0x80]]"

text \<open>
  \<open>strip_leading ws s\<close> removes from the front of \<open>s\<close> every leading sequence of \<open>ws\<close>,
  as long as there is one.
\<close>

function strip_leading :: "string list \<Rightarrow> string \<Rightarrow> string" where
  "strip_leading ws [] = []"
| "strip_leading ws (c # s) =
     (case List.find (\<lambda>w. w \<noteq> [] \<and> startswith (c # s) w) ws of
        None \<Rightarrow> c # s
      | Some w \<Rightarrow> strip_leading ws (drop (length w) (c # s)))"
  by pat_completeness auto
termination
  by (relation "measure (\<lambda>(ws, s). length s)") (auto simp: find_Some_iff)

definition py_lstrip :: "string \<Rightarrow> string" where
  "py_lstrip s = strip_leading whitespace s"

definition py_rstrip :: "string \<Rightarrow> string" where
  "py_rstrip s = rev (strip_leading (map rev whitespace) (rev s))"

definition py_strip :: "string \<Rightarrow> string" where
  "py_strip s = py_lstrip (py_rstrip s)"

section \<open>Paths\<close>

text \<open>
  A \<open>pathlib.Path\<close> is the list of its parts; an absolute path has its root (\<open>/\<close>,
  or \<open>//\<close> when the path starts with exactly two slashes) as its first part, as
  \<open>Path.parts\<close> gives it. \<open>path_name\<close>, \<open>path_suffix\<close> and
  \<open>path_stem\<close> follow pathlib: the suffix starts at the last dot of the name, unless that
  dot is the first or the last character of the name.
\<close>

type_synonym path = "string list"

definition is_absolute :: "path \<Rightarrow> bool" where
  "is_absolute p = (case p of [] \<Rightarrow> False | x # _ \<Rightarrow> x = ''/'' \<or> x = ''//'')"

definition path_name :: "path \<Rightarrow> string" where
  "path_name p = (if p = [] \<or> (is_absolute p \<and> tl p = []) then [] else last p)"

definition rfind_dot :: "string \<Rightarrow> nat option" where
  "rfind_dot s =
     (let k = length (takeWhile (\<lambda>c. c \<noteq> CHR ''.'') (rev s))
      in if k = length s then None else Some (length s - 1 - k))"

definition path_suffix :: "path \<Rightarrow> string" where
  "path_suffix p =
     (let n = path_name p
      in case rfind_dot n of
           None \<Rightarrow> []
         | Some i \<Rightarrow> if 0 < i \<and> i < length n - 1 then drop i n else [])"

definition path_stem :: "path \<Rightarrow> string" where
  "path_stem p =
     (let n = path_name p
      in case rfind_dot n of
           None \<Rightarrow> n
         | Some i \<Rightarrow> if 0 < i \<and> i < length n - 1 then take i n else n)"

text \<open>\<open>a / b\<close>: an absolute right operand replaces the left one.\<close>

definition joinpath :: "path \<Rightarrow> path \<Rightarrow> path" where
  "joinpath a b = (if is_absolute b then b else a @ b)"

text \<open>\<open>Path(s)\<close> for a string: empty parts and \<open>.\<close> parts are dropped.\<close>

definition parse_path :: "string \<Rightarrow> path" where
  "parse_path s =
     (let parts = filter (\<lambda>c. c \<noteq> [] \<and> c \<noteq> ''.'') (py_split (CHR ''/'') s)
      in if startswith s ''//'' \<and> \<not> startswith s ''///'' then ''//'' # parts
         else if startswith s ''/'' then ''/'' # parts
         else parts)"

text \<open>\<open>Path(*parts)\<close>.\<close>

definition path_of_parts :: "string list \<Rightarrow> path" where
  "path_of_parts parts = foldl joinpath [] (map parse_path parts)"

fun join_with :: "string \<Rightarrow> string list \<Rightarrow> string" where
  "join_with sep [] = []"
| "join_with sep [x] = x"
| "join_with sep (x # y # ys) = x @ sep @ join_with sep (y # ys)"

text \<open>\<open>str(p)\<close>.\<close>

definition str_path :: "path \<Rightarrow> string" where
  "str_path p =
     (if p = [] then ''.''
      else if is_absolute p then hd p @ join_with ''/'' (tl p)
      else join_with ''/'' p)"

text \<open>\<open>p.parents\<close>: the proper ancestors of \<open>p\<close>, the nearest first.\<close>

definition path_parents :: "path \<Rightarrow> path list" where
  "path_parents p =
     map (\<lambda>n. take n p) (rev [(if is_absolute p then 1 else 0) ..< length p])"

text \<open>
  \<open>p.relative_to(base)\<close>; \<open>None\<close> is its \<open>ValueError\<close>. Against the empty path
  \<open>.\<close> only a relative path is relative.
\<close>

definition relative_to :: "path \<Rightarrow> path \<Rightarrow> path option" where
  "relative_to p base =
     (if base = [] then (if is_absolute p then None else Some p)
      else if take (length base) p = base then Some (drop (length base) p)
      else None)"

section \<open>Exceptions, the environment and the state of a run\<close>

text \<open>
  A function of the scripts takes the state of the run and returns either the exception it
  raised (\<open>Inl\<close>) or its value (\<open>Inr\<close>), with the new state. The state holds the
  world outside the program (the file system, of any type \<open>'w\<close>) and the trace of what the
  program did to be seen from outside: the commands it ran with \<open>subprocess.run\<close> and the
  records it logged, with their level (\<open>LOGGER.exception\<close> logs at level \<open>ERROR\<close>).

  The environment gives what the program cannot compute by itself. \<open>exec\<close> is the
  outcome of \<open>subprocess.run\<close> on a command line: \<open>Raised\<close> when the call itself
  raises (the program cannot be started, or the timeout expires), otherwise the completed
  process with its return code and the bytes of its standard output and of its standard
  error. \<open>readlines\<close> is \<open>path.open(...)\<close> followed by \<open>file.readlines()\<close>, with the
  exception of either (\<open>OSError\<close>, \<open>UnicodeDecodeError\<close>). The remaining fields are the
  file system operations, Python's \<open>int\<close> on a string, and the functions of the
  module \<open>fileutils\<close>, whose source is not part of the files at hand.

  Among the exceptions, \<open>SubprocessError\<close> stands for whatever \<open>subprocess.run\<close>
  raises where the source does not catch it.
\<close>

datatype exn =
  ValueError | RuntimeError | FileExistsError | UnboundLocalError | IndexError
  | OSError | SubprocessError | UnicodeDecodeError

datatype level = DEBUG | INFO | WARNING | ERROR

datatype event = Invoked "string list" | Logged level

datatype proc = Raised | Completed int string string

record 'w env =
  exec :: "string list \<Rightarrow> 'w \<Rightarrow> proc \<times> 'w"
  is_file :: "path \<Rightarrow> 'w \<Rightarrow> bool"
  path_exists :: "path \<Rightarrow> 'w \<Rightarrow> bool"
  readlines :: "path \<Rightarrow> 'w \<Rightarrow> exn + string list"
  mkdir_parents :: "path \<Rightarrow> 'w \<Rightarrow> exn option \<times> 'w"
  shutil_copy :: "path \<Rightarrow> path \<Rightarrow> 'w \<Rightarrow> exn option \<times> 'w"
  rglob_class :: "path \<Rightarrow> 'w \<Rightarrow> path list"
  glob_pom :: "path \<Rightarrow> 'w \<Rightarrow> path list"
  py_int :: "string \<Rightarrow> int option"
  copy_normalized :: "path \<Rightarrow> 'w \<Rightarrow> (exn + path) \<times> 'w"
  extract_commit_sha :: "path \<Rightarrow> 'w \<Rightarrow> exn + string"
  extract_blob_sha :: "path \<Rightarrow> 'w \<Rightarrow> exn + string"

record 'w state =
  world :: 'w
  trace :: "event list"

type_synonym ('w, 'a) action = "'w state \<Rightarrow> (exn + 'a) \<times> 'w state"

definition bind_exn :: "('w, 'a) action \<Rightarrow> ('a \<Rightarrow> ('w, 'b) action) \<Rightarrow> ('w, 'b) action" where
  "bind_exn m f s = (case m s of (Inl e, s') \<Rightarrow> (Inl e, s') | (Inr x, s') \<Rightarrow> f x s')"

definition return_val :: "'a \<Rightarrow> ('w, 'a) action" where
  "return_val x s = (Inr x, s)"

definition raise :: "exn \<Rightarrow> ('w, 'a) action" where
  "raise e s = (Inl e, s)"

definition log :: "level \<Rightarrow> 'w state \<Rightarrow> 'w state" where
  "log lvl s = s\<lparr>trace := trace s @ [Logged lvl]\<rparr>"

text \<open>\<open>subprocess.run(cmd, ...)\<close>: the command is recorded, the environment answers.\<close>

definition subprocess_run :: "'w env \<Rightarrow> string list \<Rightarrow> 'w state \<Rightarrow> proc \<times> 'w state" where
  "subprocess_run env cmd s =
     (case exec env cmd (world s) of
        (p, w) \<Rightarrow> (p, s\<lparr>world := w, trace := trace s @ [Invoked cmd]\<rparr>))"

section \<open>Conflict regions (evaluate.py)\<close>

definition START_CONFLICT :: string where
  "START_CONFLICT = ''<<<<<<<''"

definition MID_CONFLICT :: string where
  "MID_CONFLICT = ''=======''"

definition END_CONFLICT :: string where
  "END_CONFLICT = ''>>>>>>>''"

record MergeConflict =
  left :: "string list"
  right :: "string list"

definition num_lines :: "MergeConflict \<Rightarrow> int" where
  "num_lines c = int (length (left c)) + int (length (right c))"

text \<open>
  \<open>itertools.takewhile(p, lines)\<close> over the shared iterator \<open>lines\<close>: the result is
  the longest prefix satisfying \<open>p\<close>, and the iterator has also consumed the first line
  that fails \<open>p\<close>. The pair is (the lines taken, what is left in the iterator).
\<close>

definition takewhile_iter :: "('a \<Rightarrow> bool) \<Rightarrow> 'a list \<Rightarrow> 'a list \<times> 'a list" where
  "takewhile_iter p xs = (takeWhile p xs, drop 1 (dropWhile p xs))"

text \<open>The local function \<open>_extract_conflict\<close>, with the iterator passed and returned.\<close>

definition extract_conflict :: "string list \<Rightarrow> MergeConflict \<times> string list" where
  "extract_conflict lines =
     (case takewhile_iter (\<lambda>line. \<not> startswith line MID_CONFLICT) lines of
        (l, rest) \<Rightarrow>
          (case takewhile_iter (\<lambda>line. \<not> startswith line END_CONFLICT) rest of
             (r, rest') \<Rightarrow> (\<lparr>left = l, right = r\<rparr>, rest')))"

lemma extract_conflict_length: "length (snd (extract_conflict lines)) \<le> length lines"
proof -
  have drop1: "length (drop 1 (dropWhile p xs)) \<le> length xs" for p and xs :: "string list"
    using length_dropWhile_le [of p xs] by simp
  show ?thesis
    unfolding extract_conflict_def takewhile_iter_def
    using drop1 [of "\<lambda>line. \<not> startswith line END_CONFLICT"
                    "drop 1 (dropWhile (\<lambda>line. \<not> startswith line MID_CONFLICT) lines)"]
          drop1 [of "\<lambda>line. \<not> startswith line MID_CONFLICT" lines]
    by simp
qed

lemma extract_conflict_rest:
  "(c, rest) = extract_conflict lines \<Longrightarrow> length rest \<le> length lines"
  using extract_conflict_length [of lines] by (metis snd_conv)

text \<open>
  The \<open>while True\<close> loop of \<open>extract_conflicts\<close> over the lines of the file:
  \<open>next(lines)\<close> until \<open>StopIteration\<close>, and a conflict appended for each line that
  starts with the start marker.
\<close>

function scan_conflicts :: "string list \<Rightarrow> MergeConflict list" where
  "scan_conflicts [] = []"
| "scan_conflicts (line # lines) =
     (if startswith line START_CONFLICT
      then (case extract_conflict lines of (c, rest) \<Rightarrow> c # scan_conflicts rest)
      else scan_conflicts lines)"
  by pat_completeness auto
termination
  by (relation "measure length")
     (auto simp: less_Suc_eq_le dest: extract_conflict_rest)

text \<open>\<open>extract_conflicts(path)\<close>: the file is read whole, then scanned.\<close>

definition extract_conflicts :: "'w env \<Rightarrow> path \<Rightarrow> ('w, MergeConflict list) action" where
  "extract_conflicts env path s =
     (case readlines env path (world s) of
        Inl e \<Rightarrow> (Inl e, s)
      | Inr lines \<Rightarrow> (Inr (scan_conflicts lines), s))"

section \<open>Diff metrics (evaluate.py)\<close>

definition gumtree_edit_script :: "'w env \<Rightarrow> path \<Rightarrow> path \<Rightarrow> ('w, string list) action" where
  "gumtree_edit_script env base_file dest_file s =
     (case subprocess_run env [''gumtree'', ''diff'', str_path base_file, str_path dest_file] s of
        (Raised, s1) \<Rightarrow> (Inl SubprocessError, s1)
      | (Completed returncode out err, s1) \<Rightarrow>
          if returncode \<noteq> 0
          then (case decode err of
                  None \<Rightarrow> (Inl UnicodeDecodeError, s1)
                | Some message \<Rightarrow> (Inl RuntimeError, s1))
          else (case decode out of
                  None \<Rightarrow> (Inl UnicodeDecodeError, s1)
                | Some output \<Rightarrow>
                    (Inr (filter (\<lambda>line. \<not> startswith line ''Match'' \<and> py_strip line \<noteq> [])
                            (py_split nl output)), s1)))"

definition git_diff :: "string list" where
  "git_diff = [''git'', ''diff'', ''--ignore-cr-at-eol'', ''--ignore-all-space'',
     ''--ignore-blank-lines'', ''--ignore-space-change'', ''--no-index'', ''-U0'']"

definition git_diff_edit_script ::
  "'w env \<Rightarrow> path \<Rightarrow> path \<Rightarrow> bool \<Rightarrow> ('w, string list) action" where
  "git_diff_edit_script env base_file dest_file strip_metadata s =
     (case subprocess_run env (git_diff @ [str_path base_file, str_path dest_file]) s of
        (Raised, s1) \<Rightarrow> (Inl SubprocessError, s1)
      | (Completed returncode out err, s1) \<Rightarrow>
          if returncode = 0 then (Inr [], s1)
          else
            (case decode out of
               None \<Rightarrow> (Inl UnicodeDecodeError, s1)
             | Some output \<Rightarrow>
                 (let lines = py_split nl (py_rstrip output)
                  in (Inr (if strip_metadata \<and> lines \<noteq> []
                           then filter (\<lambda>line. \<not> startswith line ''@@'') (drop 4 lines)
                           else lines), s1))))"

definition normalized_comparison :: "'w env \<Rightarrow> path \<Rightarrow> path \<Rightarrow> ('w, int) action" where
  "normalized_comparison env base_file dest_file s =
     (case subprocess_run env [''spork'', ''compare'', str_path base_file, str_path dest_file] s of
        (Raised, s1) \<Rightarrow> (Inl SubprocessError, s1)
      | (Completed returncode out err, s1) \<Rightarrow>
          if returncode \<noteq> 0
          then (case decode err of
                  None \<Rightarrow> (Inl UnicodeDecodeError, s1)
                | Some message \<Rightarrow> (Inr (- 1), log WARNING s1))
          else
            (case decode out of
               None \<Rightarrow> (Inl UnicodeDecodeError, s1)
             | Some output \<Rightarrow>
                 (let lines = filter (\<lambda>line. line \<noteq> []) (map py_strip (py_split nl output))
                  in if lines = [] then (Inl IndexError, s1)
                     else (case py_int env (last lines) of
                             None \<Rightarrow> (Inl ValueError, s1)
                           | Some n \<Rightarrow> (Inr n, s1)))))"

section \<open>Evaluation records (evaluate.py, containers)\<close>

text \<open>
  Modelled from the spec: the module \<open>containers\<close> is not part of the files at hand. The
  outcome tags are the three the spec lists; the fields of a merge result and of an
  evaluation are the attributes \<open>evaluation_result\<close> reads and the keyword arguments it
  passes. A merge result's \<open>merge_dir\<close>, \<open>merge_cmd\<close>, \<open>outcome\<close> and \<open>runtime\<close> are
  written with the prefix \<open>result_\<close>, the evaluation has the plain names.
\<close>

datatype MergeOutcome = SUCCESS | FAILURE | ABORTED

record MergeResult =
  result_merge_dir :: path
  result_merge_cmd :: string
  result_outcome :: MergeOutcome
  result_runtime :: real
  base_file :: path
  left_file :: path
  right_file :: path
  expected_file :: path
  merge_file :: path

record MergeEvaluation =
  merge_dir :: path
  merge_cmd :: string
  outcome :: MergeOutcome
  gumtree_diff_size :: int
  gumtree_diff_size_norm :: int
  git_diff_size :: int
  git_diff_size_norm :: int
  conflict_size :: int
  num_conflicts :: int
  runtime :: real
  merge_commit :: string
  base_blob :: string
  left_blob :: string
  right_blob :: string
  expected_blob :: string

text \<open>
  The local variables of \<open>evaluation_result\<close> that hold the metrics. The function binds
  \<open>git_diff_size_norm\<close>, \<open>gumtree_diff_size\<close> (twice), \<open>git_diff_size\<close>,
  \<open>conflict_size\<close> and \<open>num_conflicts\<close> before its branch; \<open>gumtree_diff_size_norm\<close>
  is bound only inside the branch, so it is an option: \<open>None\<close> is the unbound variable,
  and reading it raises \<open>UnboundLocalError\<close>.
\<close>

record metrics =
  m_git_diff_size_norm :: int
  m_gumtree_diff_size :: int
  m_git_diff_size :: int
  m_gumtree_diff_size_norm :: "int option"
  m_conflict_size :: int
  m_num_conflicts :: int

definition initial_metrics :: metrics where
  "initial_metrics =
     \<lparr>m_git_diff_size_norm = - 1, m_gumtree_diff_size = - 1, m_git_diff_size = - 1,
      m_gumtree_diff_size_norm = None, m_conflict_size = 0, m_num_conflicts = 0\<rparr>"

definition lift_world :: "('w \<Rightarrow> (exn + 'a) \<times> 'w) \<Rightarrow> ('w, 'a) action" where
  "lift_world f s = (case f (world s) of (r, w) \<Rightarrow> (r, s\<lparr>world := w\<rparr>))"

definition lift_read :: "('w \<Rightarrow> exn + 'a) \<Rightarrow> ('w, 'a) action" where
  "lift_read f s = (f (world s), s)"

text \<open>The body of \<open>if merge_result.outcome == conts.MergeOutcome.SUCCESS\<close>.\<close>

definition measure_success :: "'w env \<Rightarrow> MergeResult \<Rightarrow> ('w, metrics) action" where
  "measure_success env merge_result =
     (let expected = expected_file merge_result; replayed = merge_file merge_result in
      bind_exn (extract_conflicts env replayed) (\<lambda>conflicts.
      bind_exn (lift_world (copy_normalized env expected)) (\<lambda>expected_norm.
      bind_exn (lift_world (copy_normalized env replayed)) (\<lambda>replayed_norm.
      bind_exn (git_diff_edit_script env expected replayed False) (\<lambda>git.
      bind_exn (git_diff_edit_script env expected_norm replayed_norm False) (\<lambda>git_norm.
      bind_exn (gumtree_edit_script env expected replayed) (\<lambda>gumtree.
      bind_exn (gumtree_edit_script env expected_norm replayed_norm) (\<lambda>gumtree_norm.
      return_val
        \<lparr>m_git_diff_size_norm = int (length git_norm),
         m_gumtree_diff_size = int (length gumtree),
         m_git_diff_size = int (length git),
         m_gumtree_diff_size_norm = Some (int (length gumtree_norm)),
         m_conflict_size = sum_list (map num_lines conflicts),
         m_num_conflicts = int (length conflicts)\<rparr>))))))))"

text \<open>
  \<open>evaluation_result\<close>. The keyword arguments of \<open>conts.MergeEvaluation(...)\<close> are
  evaluated in the order written: the read of \<open>gumtree_diff_size_norm\<close> comes before the
  four calls of \<open>fileutils.extract_blob_sha\<close>.
\<close>

definition evaluation_result ::
  "'w env \<Rightarrow> MergeResult \<Rightarrow> path \<Rightarrow> ('w, MergeEvaluation) action" where
  "evaluation_result env merge_result base_merge_dir =
     bind_exn (if result_outcome merge_result = SUCCESS
               then measure_success env merge_result
               else return_val initial_metrics) (\<lambda>m.
     bind_exn (case relative_to (result_merge_dir merge_result) base_merge_dir of
                 None \<Rightarrow> raise ValueError
               | Some d \<Rightarrow> return_val d) (\<lambda>merge_dir'.
     bind_exn (lift_read (extract_commit_sha env merge_dir')) (\<lambda>merge_commit'.
     bind_exn (case m_gumtree_diff_size_norm m of
                 None \<Rightarrow> raise UnboundLocalError
               | Some n \<Rightarrow> return_val n) (\<lambda>gumtree_diff_size_norm'.
     bind_exn (lift_read (extract_blob_sha env (base_file merge_result))) (\<lambda>base_blob'.
     bind_exn (lift_read (extract_blob_sha env (left_file merge_result))) (\<lambda>left_blob'.
     bind_exn (lift_read (extract_blob_sha env (right_file merge_result))) (\<lambda>right_blob'.
     bind_exn (lift_read (extract_blob_sha env (expected_file merge_result))) (\<lambda>expected_blob'.
     return_val
       \<lparr>merge_dir = merge_dir',
        merge_cmd = result_merge_cmd merge_result,
        outcome = result_outcome merge_result,
        gumtree_diff_size = m_gumtree_diff_size m,
        gumtree_diff_size_norm = gumtree_diff_size_norm',
        git_diff_size = m_git_diff_size m,
        git_diff_size_norm = m_git_diff_size_norm m,
        conflict_size = m_conflict_size m,
        num_conflicts = m_num_conflicts m,
        runtime = result_runtime merge_result,
        merge_commit = merge_commit',
        base_blob = base_blob',
        left_blob = left_blob',
        right_blob = right_blob',
        expected_blob = expected_blob'\<rparr>))))))))"

section \<open>Classfiles (javautils.py)\<close>

text \<open>
  Modelled from the spec: the classes \<open>ExpectedClassfile\<close> and \<open>ClassfilePair\<close> of the
  module \<open>containers\<close>, which is not part of the files at hand. Their fields are the
  attributes that \<open>javautils\<close> reads.
\<close>

record ExpectedClassfile =
  copy_abspath :: path
  copy_basedir :: path
  original_relpath :: path

record ClassfilePair =
  expected :: ExpectedClassfile
  replayed :: path

definition extract_java_package :: "'w env \<Rightarrow> path \<Rightarrow> ('w, string) action" where
  "extract_java_package env path s =
     (case subprocess_run env [''pkgextractor'', str_path path] s of
        (Raised, s1) \<Rightarrow> (Inr [], log ERROR s1)
      | (Completed returncode out err, s1) \<Rightarrow>
          if returncode \<noteq> 0
          then (case decode out of
                  None \<Rightarrow> (Inl UnicodeDecodeError, s1)
                | Some output \<Rightarrow> (Inl RuntimeError, log DEBUG s1))
          else (case decode out of
                  None \<Rightarrow> (Inl UnicodeDecodeError, s1)
                | Some output \<Rightarrow> (Inr (py_strip output), s1)))"

definition remove_duplicate_checkcasts :: "'w env \<Rightarrow> path \<Rightarrow> ('w, unit) action" where
  "remove_duplicate_checkcasts env path s =
     (if path_suffix path \<noteq> ''.class'' then (Inl ValueError, s)
      else
        (case subprocess_run env [''duplicate-checkcast-remover'', str_path path] s of
           (Raised, s1) \<Rightarrow> (Inl SubprocessError, s1)
         | (Completed returncode out err, s1) \<Rightarrow>
             if returncode \<noteq> 0 then (Inl RuntimeError, s1) else (Inr (), s1)))"

definition copy_to_pkg_dir :: "'w env \<Rightarrow> path \<Rightarrow> string \<Rightarrow> path \<Rightarrow> ('w, path) action" where
  "copy_to_pkg_dir env classfile pkg basedir s =
     (let pkg_relpath = path_of_parts (py_split (CHR ''.'') pkg);
          pkg_abspath = joinpath basedir pkg_relpath
      in case mkdir_parents env pkg_abspath (world s) of
           (Some e, w1) \<Rightarrow> (Inl e, s\<lparr>world := w1\<rparr>)
         | (None, w1) \<Rightarrow>
             (let classfile_dst = joinpath pkg_abspath (parse_path (path_name classfile))
              in if path_exists env classfile_dst w1
                 then (Inl FileExistsError, s\<lparr>world := w1\<rparr>)
                 else (case shutil_copy env classfile classfile_dst w1 of
                         (Some e, w2) \<Rightarrow> (Inl e, s\<lparr>world := w2\<rparr>)
                       | (None, w2) \<Rightarrow> (Inr classfile_dst, s\<lparr>world := w2\<rparr>))))"

text \<open>
  \<open>compare_classfiles\<close>. Its verdict is an \<open>Optional[bool]\<close>: \<open>Some True\<close> and
  \<open>Some False\<close> are Python's \<open>True\<close> and \<open>False\<close>, \<open>None\<close> is \<open>None\<close>. The output of
  \<open>sootdiff\<close> is decoded inside the \<open>try\<close>, so output that does not decode ends in
  the \<open>except\<close> branch like an exception of the call.
\<close>

definition sootdiff_cmd :: "string \<Rightarrow> path \<Rightarrow> path \<Rightarrow> string list" where
  "sootdiff_cmd qualname expected_basedir replayed_basedir =
     [''sootdiff'', ''-qname'', qualname, ''-reffile'', str_path expected_basedir,
      ''-otherfile'', str_path replayed_basedir]"

definition compare_classfiles ::
  "'w env \<Rightarrow> ClassfilePair \<Rightarrow> path \<Rightarrow> string \<Rightarrow> ('w, bool option) action" where
  "compare_classfiles env pair eval_dir merge_driver s =
     (let expected' = copy_abspath (expected pair); replayed' = replayed pair
      in if path_name expected' \<noteq> path_name replayed' then (Inl ValueError, s)
         else
           bind_exn (extract_java_package env expected') (\<lambda>expected_pkg.
           bind_exn (extract_java_package env replayed') (\<lambda>replayed_pkg.
             let basedir = copy_basedir (expected pair);
                 expected_basedir = joinpath basedir (parse_path ''expected'');
                 replayed_basedir = joinpath basedir (parse_path merge_driver)
             in bind_exn (copy_to_pkg_dir env replayed' replayed_pkg replayed_basedir) (\<lambda>dst s3.
                  if expected_pkg \<noteq> replayed_pkg then (Inr (Some False), s3)
                  else
                    (let qualname = expected_pkg @ ''.'' @ path_stem expected'
                     in case subprocess_run env
                               (sootdiff_cmd qualname expected_basedir replayed_basedir) s3 of
                          (Raised, s4) \<Rightarrow> (Inr None, log ERROR s4)
                        | (Completed returncode out err, s4) \<Rightarrow>
                            (case decode out of
                               None \<Rightarrow> (Inr None, log ERROR s4)
                             | Some output \<Rightarrow>
                                 (Inr (Some (returncode = 0)), log INFO s4)))))) s)"

definition generate_classfile_pairs :: "ExpectedClassfile list \<Rightarrow> path \<Rightarrow> ClassfilePair list" where
  "generate_classfile_pairs expected_classfiles replayed_basedir =
     map (\<lambda>e. \<lparr>expected = e, replayed = joinpath replayed_basedir (original_relpath e)\<rparr>)
       expected_classfiles"

text \<open>
  The body of the \<open>for\<close> loop of \<open>compare_compiled_bytecode\<close> for one pair: what it
  yields, or the exception that ends the generator.
\<close>

definition compare_pair ::
  "'w env \<Rightarrow> path \<Rightarrow> string \<Rightarrow> ClassfilePair \<Rightarrow> ('w, ClassfilePair \<times> bool option) action" where
  "compare_pair env eval_dir merge_driver pair s =
     (if \<not> is_file env (replayed pair) (world s)
      then (Inr (pair, Some False), log WARNING s)
      else
        bind_exn (remove_duplicate_checkcasts env (replayed pair)) (\<lambda>u s2.
        bind_exn (compare_classfiles env pair eval_dir merge_driver) (\<lambda>equal s4.
          (Inr (pair, equal), log INFO s4)) (log INFO s2)) (log INFO s))"

text \<open>
  The generator run to its end: the pairs it yields in order, the exception that ended it
  (if one did), and the final state.
\<close>

fun run_pairs ::
  "'w env \<Rightarrow> path \<Rightarrow> string \<Rightarrow> ClassfilePair list \<Rightarrow> 'w state
   \<Rightarrow> (ClassfilePair \<times> bool option) list \<times> exn option \<times> 'w state" where
  "run_pairs env eval_dir merge_driver [] s = ([], None, s)"
| "run_pairs env eval_dir merge_driver (pair # pairs) s =
     (case compare_pair env eval_dir merge_driver pair s of
        (Inl e, s1) \<Rightarrow> ([], Some e, s1)
      | (Inr y, s1) \<Rightarrow>
          (case run_pairs env eval_dir merge_driver pairs s1 of
             (ys, r, s2) \<Rightarrow> (y # ys, r, s2)))"

definition compare_compiled_bytecode ::
  "'w env \<Rightarrow> path \<Rightarrow> ExpectedClassfile list \<Rightarrow> path \<Rightarrow> string \<Rightarrow> 'w state
   \<Rightarrow> (ClassfilePair \<times> bool option) list \<times> exn option \<times> 'w state" where
  "compare_compiled_bytecode env replayed_compile_basedir expected_classfiles eval_dir
     merge_driver s =
     run_pairs env eval_dir merge_driver
       (generate_classfile_pairs expected_classfiles replayed_compile_basedir) s"

subsection \<open>Locating the classfiles of a source file\<close>

definition dquote :: char where
  "dquote = CHR 0x22"

text \<open>
  \<open>_from_source_name\<close>: an exception of the call of \<open>javap\<close> gives \<open>False\<close>; the
  output is decoded after the \<open>try\<close>.
\<close>

definition from_source_name :: "'w env \<Rightarrow> path \<Rightarrow> string \<Rightarrow> ('w, bool) action" where
  "from_source_name env classfile src_name s =
     (case subprocess_run env [''javap'', str_path classfile] s of
        (Raised, s1) \<Rightarrow> (Inr False, log ERROR s1)
      | (Completed returncode out err, s1) \<Rightarrow>
          (case decode out of
             None \<Rightarrow> (Inl UnicodeDecodeError, s1)
           | Some output \<Rightarrow>
               (Inr (py_strip (case py_split nl output of [] \<Rightarrow> [] | l # ls \<Rightarrow> l)
                       = ''Compiled from '' @ [dquote] @ src_name @ [dquote]), s1)))"

text \<open>\<open>_closest_pomfile\<close>.\<close>

definition closest_pomfile :: "'w env \<Rightarrow> path \<Rightarrow> 'w \<Rightarrow> exn + path" where
  "closest_pomfile env path w =
     (case List.find (\<lambda>parent. glob_pom env parent w \<noteq> []) (path_parents path) of
        None \<Rightarrow> Inl ValueError
      | Some parent \<Rightarrow> Inr (joinpath parent (parse_path ''pom.xml'')))"

text \<open>A list comprehension whose condition runs tools: the first exception ends it.\<close>

fun filter_action :: "('a \<Rightarrow> ('w, bool) action) \<Rightarrow> 'a list \<Rightarrow> ('w, 'a list) action" where
  "filter_action p [] s = (Inr [], s)"
| "filter_action p (x # xs) s =
     (case p x s of
        (Inl e, s1) \<Rightarrow> (Inl e, s1)
      | (Inr b, s1) \<Rightarrow>
          (case filter_action p xs s1 of
             (Inl e, s2) \<Rightarrow> (Inl e, s2)
           | (Inr ys, s2) \<Rightarrow> (Inr (if b then x # ys else ys), s2)))"

text \<open>
  What \<open>locate_classfiles\<close> returns: the bare list of its first \<open>return\<close>, or the pair
  of the list and the package name of its last one. The classfiles under \<open>basedir\<close> are
  listed once, in the world in which the function starts.
\<close>

datatype located = Bare "path list" | WithPackage "path list" string

definition name_matches :: "'w env \<Rightarrow> path \<Rightarrow> path \<Rightarrow> ('w, bool) action" where
  "name_matches env src file s =
     (let name = path_stem src; sub_classfile_prefix = name @ ''$''
      in if path_stem file = name \<or> startswith (path_stem file) sub_classfile_prefix
         then from_source_name env file (path_name src) s
         else (Inr False, s))"

definition same_package_and_pom :: "'w env \<Rightarrow> path \<Rightarrow> string \<Rightarrow> path \<Rightarrow> ('w, bool) action" where
  "same_package_and_pom env src expected_pkg classfile =
     bind_exn (extract_java_package env classfile) (\<lambda>pkg.
       if pkg = expected_pkg
       then bind_exn (lift_read (closest_pomfile env classfile)) (\<lambda>a.
            bind_exn (lift_read (closest_pomfile env src)) (\<lambda>b.
            return_val (a = b)))
       else return_val False)"

definition locate_classfiles :: "'w env \<Rightarrow> path \<Rightarrow> path \<Rightarrow> ('w, located) action" where
  "locate_classfiles env src basedir s =
     (if \<not> is_file env src (world s) then (Inr (Bare []), log WARNING s)
      else
        bind_exn (filter_action (name_matches env src) (rglob_class env basedir (world s)))
          (\<lambda>matches.
        bind_exn (extract_java_package env src) (\<lambda>expected_pkg.
        bind_exn (filter_action (same_package_and_pom env src expected_pkg) matches)
          (\<lambda>classfiles s3.
            (Inr (WithPackage (sort classfiles) expected_pkg),
             if classfiles = [] then log WARNING s3 else s3)))) s)"

section \<open>Well-formed conflict-marked text\<close>

text \<open>
  A conflict-marked text is a sequence of segments: runs of ordinary lines, and conflict
  regions made of a start-marker line, the left lines, a mid-marker line, the right lines
  and an end-marker line. \<open>render\<close> gives its lines, \<open>regions\<close> its conflict regions in
  document order. \<open>well_formed\<close> asks only what keeps the regions disjoint for a
  sequential reader: marker lines carry their markers, no ordinary line opens a region, no
  left line starts with the mid marker and no right line starts with the end marker. Every
  text without stray marker lines satisfies it.
\<close>

record region =
  start_line :: string
  left_lines :: "string list"
  mid_line :: string
  right_lines :: "string list"
  end_line :: string

datatype segment = Plain "string list" | Conflict region

fun render_segment :: "segment \<Rightarrow> string list" where
  "render_segment (Plain ls) = ls"
| "render_segment (Conflict r) =
     start_line r # left_lines r @ mid_line r # right_lines r @ [end_line r]"

definition render :: "segment list \<Rightarrow> string list" where
  "render d = concat (map render_segment d)"

fun regions :: "segment list \<Rightarrow> region list" where
  "regions [] = []"
| "regions (Plain ls # d) = regions d"
| "regions (Conflict r # d) = r # regions d"

fun well_formed_segment :: "segment \<Rightarrow> bool" where
  "well_formed_segment (Plain ls) = list_all (\<lambda>l. \<not> startswith l START_CONFLICT) ls"
| "well_formed_segment (Conflict r) =
     (startswith (start_line r) START_CONFLICT
      \<and> list_all (\<lambda>l. \<not> startswith l MID_CONFLICT) (left_lines r)
      \<and> startswith (mid_line r) MID_CONFLICT
      \<and> list_all (\<lambda>l. \<not> startswith l END_CONFLICT) (right_lines r)
      \<and> startswith (end_line r) END_CONFLICT)"

definition well_formed :: "segment list \<Rightarrow> bool" where
  "well_formed d = list_all well_formed_segment d"

definition conflict_of :: "region \<Rightarrow> MergeConflict" where
  "conflict_of r = \<lparr>left = left_lines r, right = right_lines r\<rparr>"

section \<open>Comparing two sets of evaluations (command.py, analyze)\<close>

text \<open>
  Modelled from the spec: \<open>Evaluations.at_least_as_good_as\<close> of the module \<open>analyze\<close>,
  which is not part of the files at hand (only its call in \<open>run_merge_and_compare\<close> is).
  A set of evaluations is the list of its records, keyed by merge directory and merge
  command. The candidate is strictly worse on a scenario when the reference succeeded
  and the candidate did not, or when both succeeded and the candidate's normalized
  tree-structured diff size is larger. The comparison goes through the reference's
  records: a record with no candidate counterpart is a regression, and every candidate
  counterpart must be no worse.
\<close>

definition same_scenario :: "MergeEvaluation \<Rightarrow> MergeEvaluation \<Rightarrow> bool" where
  "same_scenario a b = (merge_dir a = merge_dir b \<and> merge_cmd a = merge_cmd b)"

definition strictly_worse :: "MergeEvaluation \<Rightarrow> MergeEvaluation \<Rightarrow> bool" where
  "strictly_worse candidate reference =
     (if outcome reference = SUCCESS
      then (if outcome candidate = SUCCESS
            then gumtree_diff_size_norm reference < gumtree_diff_size_norm candidate
            else True)
      else False)"

fun at_least_as_good_as :: "MergeEvaluation list \<Rightarrow> MergeEvaluation list \<Rightarrow> bool" where
  "at_least_as_good_as candidates [] = True"
| "at_least_as_good_as candidates (r # reference) =
     (case filter (same_scenario r) candidates of
        [] \<Rightarrow> False
      | c # cs \<Rightarrow> list_all (\<lambda>c'. \<not> strictly_worse c' r) (c # cs)
                 \<and> at_least_as_good_as candidates reference)"

text \<open>
  The end of \<open>run_merge_and_compare\<close> (command.py): the exit status of the process.
\<close>

definition run_merge_and_compare_exit :: "MergeEvaluation list \<Rightarrow> MergeEvaluation list \<Rightarrow> int" where
  "run_merge_and_compare_exit new_evaluations old_evaluations =
     (if at_least_as_good_as new_evaluations old_evaluations then 0 else 1)"

section \<open>What a trace shows\<close>

text \<open>How many times a run has started the tool \<open>tool\<close> (the first word of a command).\<close>

fun is_run_of :: "string \<Rightarrow> event \<Rightarrow> bool" where
  "is_run_of tool (Invoked cmd) = (case cmd of [] \<Rightarrow> False | c # args \<Rightarrow> c = tool)"
| "is_run_of tool (Logged lvl) = False"

definition tool_runs :: "string \<Rightarrow> 'w state \<Rightarrow> nat" where
  "tool_runs tool s = length (filter (is_run_of tool) (trace s))"

definition logged :: "level \<Rightarrow> 'w state \<Rightarrow> nat" where
  "logged lvl s = length (filter (\<lambda>e. e = Logged lvl) (trace s))"

section \<open>An environment to run the functions in\<close>

text \<open>
  A world with nothing to change (\<open>unit\<close>): every tool answers as \<open>tools\<close> says, the
  files are those of \<open>files\<close> with their lines (opening another path raises \<open>OSError\<close>),
  directories can be made and files copied.
\<close>

definition simple_env :: "(string list \<Rightarrow> proc) \<Rightarrow> (path \<Rightarrow> string list option) \<Rightarrow> unit env" where
  "simple_env tools files =
     \<lparr>exec = (\<lambda>cmd w. (tools cmd, w)),
      is_file = (\<lambda>p w. files p \<noteq> None),
      path_exists = (\<lambda>p w. files p \<noteq> None),
      readlines = (\<lambda>p w. case files p of None \<Rightarrow> Inl OSError | Some ls \<Rightarrow> Inr ls),
      mkdir_parents = (\<lambda>p w. (None, w)),
      shutil_copy = (\<lambda>p q w. (None, w)),
      rglob_class = (\<lambda>p w. []),
      glob_pom = (\<lambda>p w. []),
      py_int = (\<lambda>t. None),
      copy_normalized = (\<lambda>p w. (Inr p, w)),
      extract_commit_sha = (\<lambda>p w. Inr ''c0ffee''),
      extract_blob_sha = (\<lambda>p w. Inr ''b10b'')\<rparr>"

definition start :: "unit state" where
  "start = \<lparr>world = (), trace = []\<rparr>"

definition no_tools :: "string list \<Rightarrow> proc" where
  "no_tools cmd = Raised"

definition every_tool :: "proc \<Rightarrow> string list \<Rightarrow> proc" where
  "every_tool p cmd = p"

definition no_files :: "path \<Rightarrow> string list option" where
  "no_files p = None"

definition one_file :: "path \<Rightarrow> string list \<Rightarrow> path \<Rightarrow> string list option" where
  "one_file p ls q = (if q = p then Some ls else None)"

section \<open>Inputs used below\<close>

text \<open>A merge that failed, in the merge directory of commit \<open>abc123\<close>.\<close>

definition failed_merge :: MergeResult where
  "failed_merge =
     \<lparr>result_merge_dir = [''merge_directory'', ''abc123'', ''Main.java''],
      result_merge_cmd = ''spork'', result_outcome = FAILURE, result_runtime = 0,
      base_file = [''merge_directory'', ''abc123'', ''Main.java'', ''Base.java''],
      left_file = [''merge_directory'', ''abc123'', ''Main.java'', ''Left.java''],
      right_file = [''merge_directory'', ''abc123'', ''Main.java'', ''Right.java''],
      expected_file = [''merge_directory'', ''abc123'', ''Main.java'', ''Expected.java''],
      merge_file = [''merge_directory'', ''abc123'', ''Main.java'', ''spork.java'']\<rparr>"

text \<open>
  A file with one conflict whose left side is empty (one side deleted the line that the
  other side changed), and a file with two conflicts.
\<close>

definition one_sided :: "segment list" where
  "one_sided =
     [Plain [''int a;\<newline>''],
      Conflict \<lparr>start_line = ''<<<<<<< HEAD\<newline>'', left_lines = [],
                mid_line = ''=======\<newline>'', right_lines = [''int x;\<newline>''],
                end_line = ''>>>>>>> branch\<newline>''\<rparr>,
      Plain [''int b;\<newline>'']]"

definition two_regions :: "segment list" where
  "two_regions =
     [Plain [''class A {\<newline>''],
      Conflict \<lparr>start_line = ''<<<<<<< HEAD\<newline>'',
                left_lines = [''int x = 1;\<newline>'', ''int y = 2;\<newline>''],
                mid_line = ''=======\<newline>'', right_lines = [''int x = 3;\<newline>''],
                end_line = ''>>>>>>> branch\<newline>''\<rparr>,
      Plain [''void f() {}\<newline>''],
      Conflict \<lparr>start_line = ''<<<<<<< HEAD\<newline>'',
                left_lines = [''int z;\<newline>''],
                mid_line = ''=======\<newline>'', right_lines = [''long z;\<newline>''],
                end_line = ''>>>>>>> branch\<newline>''\<rparr>,
      Plain [''}\<newline>'']]"

text \<open>Two runs of the benchmark over the same scenarios.\<close>

definition evaluation_of :: "string \<Rightarrow> MergeOutcome \<Rightarrow> int \<Rightarrow> MergeEvaluation" where
  "evaluation_of dir out n =
     \<lparr>merge_dir = [dir], merge_cmd = ''spork'', outcome = out,
      gumtree_diff_size = n, gumtree_diff_size_norm = n,
      git_diff_size = n, git_diff_size_norm = n,
      conflict_size = 0, num_conflicts = 0, runtime = 1, merge_commit = ''c0ffee'',
      base_blob = ''b0'', left_blob = ''b1'', right_blob = ''b2'', expected_blob = ''b3''\<rparr>"

definition old_run :: "MergeEvaluation list" where
  "old_run = [evaluation_of ''m1'' FAILURE (- 1), evaluation_of ''m2'' SUCCESS 5]"

definition new_run :: "MergeEvaluation list" where
  "new_run = [evaluation_of ''m1'' SUCCESS 100, evaluation_of ''m2'' SUCCESS 5,
              evaluation_of ''m3'' ABORTED (- 1)]"

text \<open>What \<open>git diff\<close> prints for two text files, and for two binary files.\<close>

definition diff_output :: string where
  "diff_output = ''diff --git a/A.java b/B.java\<newline>index 1..2 100644\<newline>--- a/A.java\<newline>+++ b/B.java\<newline>@@ -1 +1 @@\<newline>-int a;\<newline>+int b;\<newline>''"

definition binary_diff_output :: string where
  "binary_diff_output = ''diff --git a/A.class b/B.class\<newline>index 1..2 100644\<newline>Binary files a/A.class and b/B.class differ\<newline>''"

text \<open>
  Two expected classfiles, of which only \<open>Foo.class\<close> was compiled in the replayed
  tree. \<open>pkgextractor\<close> finds the package \<open>a.b\<close> in the expected \<open>Foo.class\<close> and
  \<open>replayed_pkg\<close> in the replayed one; \<open>sootdiff\<close> ends as \<open>soot\<close> says.
\<close>

definition foo_class :: ExpectedClassfile where
  "foo_class =
     \<lparr>copy_abspath = [''eval'', ''expected'', ''a'', ''b'', ''Foo.class''],
      copy_basedir = [''eval''],
      original_relpath = [''target'', ''classes'', ''a'', ''b'', ''Foo.class'']\<rparr>"

definition bar_class :: ExpectedClassfile where
  "bar_class =
     \<lparr>copy_abspath = [''eval'', ''expected'', ''a'', ''b'', ''Bar.class''],
      copy_basedir = [''eval''],
      original_relpath = [''target'', ''classes'', ''a'', ''b'', ''Bar.class'']\<rparr>"

definition foo_pair :: ClassfilePair where
  "foo_pair = \<lparr>expected = foo_class,
                replayed = [''replayed'', ''target'', ''classes'', ''a'', ''b'', ''Foo.class'']\<rparr>"

definition mismatched_pair :: ClassfilePair where
  "mismatched_pair = \<lparr>expected = foo_class,
     replayed = [''replayed'', ''target'', ''classes'', ''a'', ''b'', ''Bar.class'']\<rparr>"

definition classfile_tools :: "string \<Rightarrow> proc \<Rightarrow> string list \<Rightarrow> proc" where
  "classfile_tools replayed_pkg soot cmd =
     (if cmd = [''pkgextractor'', ''eval/expected/a/b/Foo.class'']
      then Completed 0 ''a.b\<newline>'' []
      else if cmd = [''pkgextractor'', ''replayed/target/classes/a/b/Foo.class'']
      then Completed 0 replayed_pkg []
      else if take 1 cmd = [''sootdiff''] then soot
      else Completed 0 [] [])"

definition replayed_files :: "path \<Rightarrow> string list option" where
  "replayed_files = one_file [''replayed'', ''target'', ''classes'', ''a'', ''b'', ''Foo.class''] []"

definition equal_env :: "unit env" where
  "equal_env = simple_env (classfile_tools ''a.b\<newline>'' (Completed 0 [] [])) replayed_files"

definition after_packages :: "unit state" where
  "after_packages =
     \<lparr>world = (),
      trace = [Invoked [''pkgextractor'', ''eval/expected/a/b/Foo.class''],
               Invoked [''pkgextractor'', ''replayed/target/classes/a/b/Foo.class'']]\<rparr>"

definition after_foo :: "unit state" where
  "after_foo =
     \<lparr>world = (),
      trace =
        [Logged INFO,
         Invoked [''duplicate-checkcast-remover'', ''replayed/target/classes/a/b/Foo.class''],
         Logged INFO,
         Invoked [''pkgextractor'', ''eval/expected/a/b/Foo.class''],
         Invoked [''pkgextractor'', ''replayed/target/classes/a/b/Foo.class''],
         Invoked [''sootdiff'', ''-qname'', ''a.b.Foo'', ''-reffile'', ''eval/expected'',
                  ''-otherfile'', ''eval/spork''],
         Logged INFO, Logged INFO]\<rparr>"

text \<open>
  Bytes that are not UTF-8 (the Latin-1 encoding of a word with an accent), and a tree
  of files in which \<open>Foo.class\<close> has already been staged for the package \<open>c.d\<close>.
\<close>

definition latin1_output :: string where
  "latin1_output = ''caf'' @ [CHR 0xE9, CHR 0x0A]"

definition staged_files :: "path \<Rightarrow> string list option" where
  "staged_files p =
     (if p = [''replayed'', ''target'', ''classes'', ''a'', ''b'', ''Foo.class'']
         \<or> p = [''eval'', ''spork'', ''c'', ''d'', ''Foo.class'']
      then Some [] else None)"

text \<open>
  The environment in which \<open>Foo.class\<close> is replayed in package \<open>c.d\<close> and already
  staged there, and the one in which it is replayed in package \<open>a.b\<close> and \<open>sootdiff\<close>
  exits with status 0 after printing the Latin-1 bytes.
\<close>

definition staged_env :: "unit env" where
  "staged_env = simple_env (classfile_tools ''c.d\<newline>'' (Completed 0 [] [])) staged_files"

definition latin1_env :: "unit env" where
  "latin1_env =
     simple_env (classfile_tools ''a.b\<newline>'' (Completed 0 latin1_output [])) replayed_files"

section \<open>Facts about strings, paths and traces\<close>

lemmas marker_defs = startswith_def START_CONFLICT_def MID_CONFLICT_def END_CONFLICT_def

lemmas string_defs = py_rstrip_def py_strip_def py_lstrip_def whitespace_def nl_def
  startswith_def

lemmas path_defs = str_path_def is_absolute_def path_name_def path_stem_def path_suffix_def
  rfind_dot_def joinpath_def parse_path_def path_of_parts_def

lemma py_split_nonempty: "py_split c s \<noteq> []"
  by (induction s) (auto split: list.splits)

text \<open>ASCII bytes decode to themselves; the Latin-1 bytes do not decode.\<close>

lemma decode_ascii: "list_all (\<lambda>c. (of_char c :: nat) < 0x80) b \<Longrightarrow> decode b = Some b"
proof -
  have "list_all (\<lambda>c. (of_char c :: nat) < 0x80) b \<Longrightarrow> valid_utf8 (map of_char b)"
    by (induction b) simp_all
  then show "list_all (\<lambda>c. (of_char c :: nat) < 0x80) b \<Longrightarrow> decode b = Some b"
    by (simp add: decode_def)
qed

lemma decode_empty: "decode [] = Some []"
  by (simp add: decode_def)

lemma decode_latin1: "decode latin1_output = None"
  by (simp add: decode_def latin1_output_def continuation_def)

lemma subprocess_run_runs:
  "subprocess_run env (c # args) s = (p, s') \<Longrightarrow> tool \<noteq> c \<Longrightarrow>
   tool_runs tool s' = tool_runs tool s"
  by (auto simp: subprocess_run_def tool_runs_def split: prod.splits)

lemma log_runs: "tool_runs tool (log lvl s) = tool_runs tool s"
  by (simp add: log_def tool_runs_def)

lemma log_logged: "logged lvl (log lvl s) = logged lvl s + 1"
  by (simp add: log_def logged_def)

section \<open>The evaluation record of a merge that did not succeed\<close>

text \<open>
  C1. The claim: for a merge result whose outcome is not \<open>SUCCESS\<close>, \<open>evaluation_result\<close>
  returns an evaluation with the four diff sizes at \<open>-1\<close> and the conflict statistics at
  \<open>0\<close>. The code does not get that far. It binds \<open>gumtree_diff_size\<close> twice and
  \<open>gumtree_diff_size_norm\<close> only inside the \<open>SUCCESS\<close> branch, so for every other
  outcome the function returns no evaluation at all: it raises, and when the merge
  directory lies under the base directory and the commit hash is extracted, what it
  raises is the \<open>UnboundLocalError\<close> of reading \<open>gumtree_diff_size_norm\<close>. The state of
  the run is as it was: nothing was measured.
\<close>

theorem evaluation_result_not_success:
  assumes "result_outcome merge_result \<noteq> SUCCESS"
  shows "(\<exists>e. evaluation_result env merge_result base_merge_dir s = (Inl e, s))
       \<and> (\<forall>d c. relative_to (result_merge_dir merge_result) base_merge_dir = Some d
              \<longrightarrow> extract_commit_sha env d (world s) = Inr c
              \<longrightarrow> evaluation_result env merge_result base_merge_dir s
                    = (Inl UnboundLocalError, s))"
  using assms
  by (auto simp: evaluation_result_def bind_exn_def return_val_def raise_def lift_read_def
      initial_metrics_def split: option.splits sum.splits)

text \<open>The failed merge of commit \<open>abc123\<close> raises \<open>UnboundLocalError\<close>.\<close>

theorem evaluation_result_not_success_witness:
  "result_outcome failed_merge \<noteq> SUCCESS
   \<and> evaluation_result (simple_env no_tools no_files) failed_merge [''merge_directory''] start
       = (Inl UnboundLocalError, start)"
proof -
  have f: "result_outcome failed_merge \<noteq> SUCCESS"
    by (simp add: failed_merge_def)
  have d: "relative_to (result_merge_dir failed_merge) [''merge_directory'']
             = Some [''abc123'', ''Main.java'']"
    by (simp add: failed_merge_def relative_to_def)
  have c: "extract_commit_sha (simple_env no_tools no_files) [''abc123'', ''Main.java'']
             (world start) = Inr ''c0ffee''"
    by (simp add: simple_env_def)
  show ?thesis
    using f d c evaluation_result_not_success [OF f, of "simple_env no_tools no_files"
        "[''merge_directory'']" start]
    by blast
qed

section \<open>Conflicts of a well-formed text\<close>

lemma takewhile_iter_stop:
  "list_all p xs \<Longrightarrow> \<not> p y \<Longrightarrow> takewhile_iter p (xs @ y # ys) = (xs, ys)"
  by (induction xs) (auto simp: takewhile_iter_def)

lemma extract_conflict_region:
  assumes "list_all (\<lambda>l. \<not> startswith l MID_CONFLICT) ls"
    and "startswith m MID_CONFLICT"
    and "list_all (\<lambda>l. \<not> startswith l END_CONFLICT) rs"
    and "startswith e END_CONFLICT"
  shows "extract_conflict (ls @ m # rs @ e # rest) = (\<lparr>left = ls, right = rs\<rparr>, rest)"
  using assms by (simp add: extract_conflict_def takewhile_iter_stop)

lemma scan_conflicts_plain:
  "list_all (\<lambda>l. \<not> startswith l START_CONFLICT) ls \<Longrightarrow>
   scan_conflicts (ls @ rest) = scan_conflicts rest"
  by (induction ls) auto

lemma scan_conflicts_segment:
  "well_formed_segment g \<Longrightarrow>
   scan_conflicts (render_segment g @ rest) = map conflict_of (regions [g]) @ scan_conflicts rest"
  by (cases g) (simp_all add: scan_conflicts_plain extract_conflict_region conflict_of_def)

lemma scan_conflicts_render:
  "well_formed d \<Longrightarrow> scan_conflicts (render d) = map conflict_of (regions d)"
proof (induction d)
  case Nil
  then show ?case by (simp add: render_def)
next
  case (Cons g d)
  then have g: "well_formed_segment g" and d: "well_formed d"
    by (simp_all add: well_formed_def)
  have "render (g # d) = render_segment g @ render d"
    by (simp add: render_def)
  moreover have "regions (g # d) = regions [g] @ regions d"
    by (cases g) simp_all
  ultimately show ?case
    using scan_conflicts_segment [OF g, of "render d"] Cons.IH [OF d] by simp
qed

text \<open>
  C2, as amended. For a file holding a well-formed conflict-marked text,
  \<open>extract_conflicts\<close> returns one conflict for each region of the text, in document
  order (so exactly \<open>N\<close> conflicts for \<open>N\<close> regions); the left lines of each are the lines
  between its start and mid markers and its right lines those between its mid and end
  markers. A side is empty when its region has no line on that side.
\<close>

theorem extract_conflicts_well_formed:
  assumes "readlines env path (world s) = Inr (render d)"
    and "well_formed d"
  shows "extract_conflicts env path s = (Inr (map conflict_of (regions d)), s)
       \<and> length (map conflict_of (regions d)) = length (regions d)"
  using assms by (simp add: extract_conflicts_def scan_conflicts_render)

text \<open>A file with two regions gives its two conflicts, in order.\<close>

theorem extract_conflicts_well_formed_witness:
  "well_formed two_regions
   \<and> extract_conflicts (simple_env no_tools (one_file [''A.java''] (render two_regions)))
        [''A.java''] start
      = (Inr [\<lparr>left = [''int x = 1;\<newline>'', ''int y = 2;\<newline>''],
                right = [''int x = 3;\<newline>'']\<rparr>,
              \<lparr>left = [''int z;\<newline>''], right = [''long z;\<newline>'']\<rparr>], start)"
proof -
  have wf: "well_formed two_regions"
    by (simp add: two_regions_def well_formed_def marker_defs)
  have rd: "readlines (simple_env no_tools (one_file [''A.java''] (render two_regions)))
              [''A.java''] (world start) = Inr (render two_regions)"
    by (simp add: simple_env_def one_file_def)
  have cs: "map conflict_of (regions two_regions)
              = [\<lparr>left = [''int x = 1;\<newline>'', ''int y = 2;\<newline>''],
                  right = [''int x = 3;\<newline>'']\<rparr>,
                 \<lparr>left = [''int z;\<newline>''], right = [''long z;\<newline>'']\<rparr>]"
    by (simp add: two_regions_def conflict_of_def)
  show ?thesis
    using wf cs extract_conflicts_well_formed [OF rd wf] by simp
qed

text \<open>
  The claim as it stands also says that both sides of every conflict are non-empty. A
  well-formed text with one region whose left side has no line gives a conflict whose
  left side is empty.
\<close>

theorem extract_conflicts_empty_side:
  "well_formed one_sided \<and> length (regions one_sided) = 1
   \<and> extract_conflicts (simple_env no_tools (one_file [''A.java''] (render one_sided)))
        [''A.java''] start
      = (Inr [\<lparr>left = [], right = [''int x;\<newline>'']\<rparr>], start)"
  by (simp add: one_sided_def well_formed_def marker_defs extract_conflicts_def simple_env_def
      one_file_def render_def extract_conflict_def takewhile_iter_def)

section \<open>A run at least as good as the reference\<close>

lemma filter_empty_iff: "(filter P xs = []) = (\<forall>x\<in>set xs. \<not> P x)"
  by (induction xs) auto

lemma at_least_as_good_as_set:
  "at_least_as_good_as candidates reference \<longleftrightarrow>
     (\<forall>r \<in> set reference.
        (\<exists>c \<in> set candidates. same_scenario r c)
        \<and> (\<forall>c \<in> set candidates. same_scenario r c \<longrightarrow> \<not> strictly_worse c r))"
proof (induction reference)
  case Nil
  show ?case by simp
next
  case (Cons r reference)
  have head: "(case filter (same_scenario r) candidates of
                 [] \<Rightarrow> False
               | c # cs \<Rightarrow> list_all (\<lambda>c'. \<not> strictly_worse c' r) (c # cs) \<and> rest)
              \<longleftrightarrow> (\<exists>c \<in> set candidates. same_scenario r c)
                 \<and> (\<forall>c \<in> set candidates. same_scenario r c \<longrightarrow> \<not> strictly_worse c r) \<and> rest"
    for rest
  proof (cases "filter (same_scenario r) candidates")
    case Nil
    then show ?thesis by (simp add: filter_empty_iff)
  next
    case (Cons c cs)
    then have "c \<in> set (filter (same_scenario r) candidates)" by simp
    then have ex: "\<exists>c \<in> set candidates. same_scenario r c" by auto
    have "list_all (\<lambda>c'. \<not> strictly_worse c' r) (filter (same_scenario r) candidates)
          \<longleftrightarrow> (\<forall>c \<in> set candidates. same_scenario r c \<longrightarrow> \<not> strictly_worse c r)"
      by (auto simp: list_all_iff)
    with Cons ex show ?thesis by auto
  qed
  show ?case
    using head [of "at_least_as_good_as candidates reference"] Cons.IH by auto
qed

lemma not_strictly_worse:
  "\<not> strictly_worse c r \<longleftrightarrow>
     (outcome r = SUCCESS \<longrightarrow>
        outcome c = SUCCESS \<and> gumtree_diff_size_norm c \<le> gumtree_diff_size_norm r)"
  by (auto simp: strictly_worse_def)

text \<open>A run whose records have distinct keys is at least as good as itself.\<close>

lemma at_least_as_good_as_same:
  assumes "distinct (map (\<lambda>e. (merge_dir e, merge_cmd e)) run)"
  shows "at_least_as_good_as run run"
proof -
  have "inj_on (\<lambda>e. (merge_dir e, merge_cmd e)) (set run)"
    using assms by (simp add: distinct_map)
  then have "r = c" if "r \<in> set run" "c \<in> set run" "same_scenario r c" for r c
    using that by (auto simp: same_scenario_def dest: inj_onD)
  then show ?thesis
    by (auto simp: at_least_as_good_as_set strictly_worse_def same_scenario_def)
qed

text \<open>A reference record without a counterpart fails the comparison.\<close>

lemma at_least_as_good_as_missing:
  "r \<in> set reference \<Longrightarrow> \<forall>c \<in> set candidates. \<not> same_scenario r c \<Longrightarrow>
   \<not> at_least_as_good_as candidates reference"
  by (auto simp: at_least_as_good_as_set)

text \<open>
  C3. The comparison succeeds exactly when every record of the reference has a
  counterpart among the candidates (same merge directory and merge command), and every
  such counterpart is not strictly worse: where the reference succeeded, the candidate
  succeeded too and its normalized tree-structured diff size is at most the reference's;
  where the reference did not succeed, any candidate passes, whatever its metrics.
  \<open>run_merge_and_compare\<close> exits with status \<open>0\<close> exactly then.
\<close>

theorem at_least_as_good_as_iff:
  "(at_least_as_good_as candidates reference \<longleftrightarrow>
      (\<forall>r \<in> set reference.
         (\<exists>c \<in> set candidates. same_scenario r c)
         \<and> (\<forall>c \<in> set candidates. same_scenario r c \<longrightarrow>
               (outcome r = SUCCESS \<longrightarrow>
                  outcome c = SUCCESS
                  \<and> gumtree_diff_size_norm c \<le> gumtree_diff_size_norm r))))
   \<and> (run_merge_and_compare_exit candidates reference = 0
        \<longleftrightarrow> at_least_as_good_as candidates reference)"
  by (simp add: at_least_as_good_as_set not_strictly_worse run_merge_and_compare_exit_def)

text \<open>
  The new run succeeds on \<open>m1\<close> where the old one failed (with a diff size of 100), and
  equals the old one on \<open>m2\<close>: it is at least as good.
\<close>

theorem at_least_as_good_as_iff_witness:
  "at_least_as_good_as new_run old_run \<and> run_merge_and_compare_exit new_run old_run = 0"
proof -
  have "\<forall>r \<in> set old_run.
         (\<exists>c \<in> set new_run. same_scenario r c)
         \<and> (\<forall>c \<in> set new_run. same_scenario r c \<longrightarrow>
               (outcome r = SUCCESS \<longrightarrow>
                  outcome c = SUCCESS
                  \<and> gumtree_diff_size_norm c \<le> gumtree_diff_size_norm r))"
    by (simp add: old_run_def new_run_def evaluation_of_def same_scenario_def)
  then show ?thesis
    using at_least_as_good_as_iff [of new_run old_run] by blast
qed

section \<open>The verdict of \<open>compare_classfiles\<close>\<close>

lemma extract_java_package_runs:
  assumes "extract_java_package env p s = (r, s')" and "tool \<noteq> ''pkgextractor''"
  shows "tool_runs tool s' = tool_runs tool s"
proof -
  obtain q s1 where run: "subprocess_run env [''pkgextractor'', str_path p] s = (q, s1)"
    by (cases "subprocess_run env [''pkgextractor'', str_path p] s")
  then have s1: "tool_runs tool s1 = tool_runs tool s"
    using assms(2) by (rule subprocess_run_runs)
  from assms(1) run have "s' = s1 \<or> s' = log ERROR s1 \<or> s' = log DEBUG s1"
    by (auto simp: extract_java_package_def split: proc.splits if_splits option.splits)
  then show ?thesis
    using s1 by (auto simp: log_runs)
qed

lemma copy_to_pkg_dir_trace:
  "copy_to_pkg_dir env c pkg b s = (r, s') \<Longrightarrow> trace s' = trace s"
  by (auto simp: copy_to_pkg_dir_def Let_def split: prod.splits option.splits if_splits)

lemma foo_names: "path_name (copy_abspath (expected foo_pair)) = path_name (replayed foo_pair)"
  by (simp add: foo_pair_def foo_class_def path_name_def is_absolute_def)

lemma foo_expected_package:
  "extract_java_package (simple_env (classfile_tools rp soot) replayed_files)
     (copy_abspath (expected foo_pair)) start
   = (Inr ''a.b'',
      \<lparr>world = (), trace = [Invoked [''pkgextractor'', ''eval/expected/a/b/Foo.class'']]\<rparr>)"
  by (simp add: extract_java_package_def subprocess_run_def simple_env_def classfile_tools_def
      foo_pair_def foo_class_def start_def str_path_def is_absolute_def string_defs decode_def)

lemma foo_replayed_package:
  "rp = ''a.b\<newline>'' \<or> rp = ''c.d\<newline>'' \<Longrightarrow>
   extract_java_package (simple_env (classfile_tools rp soot) replayed_files)
     (replayed foo_pair)
     \<lparr>world = (), trace = [Invoked [''pkgextractor'', ''eval/expected/a/b/Foo.class'']]\<rparr>
   = (Inr (take 3 rp), after_packages)"
  by (auto simp: extract_java_package_def subprocess_run_def simple_env_def classfile_tools_def
      foo_pair_def foo_class_def after_packages_def str_path_def is_absolute_def string_defs
      decode_def)

lemma foo_staged:
  "pkg = ''a.b'' \<or> pkg = ''c.d'' \<Longrightarrow>
   copy_to_pkg_dir (simple_env (classfile_tools rp soot) replayed_files) (replayed foo_pair) pkg
     (joinpath (copy_basedir (expected foo_pair)) (parse_path ''spork'')) after_packages
   = (Inr ([''eval'', ''spork''] @ py_split (CHR ''.'') pkg @ [''Foo.class'']), after_packages)"
  by (auto simp: copy_to_pkg_dir_def simple_env_def replayed_files_def one_file_def
      foo_pair_def foo_class_def after_packages_def path_defs string_defs)

lemma foo_sootdiff:
  "fst (exec (simple_env (classfile_tools rp soot) files) (sootdiff_cmd q a b) w) = soot"
  by (simp add: simple_env_def classfile_tools_def sootdiff_cmd_def)

text \<open>
  C4, as amended. Take a pair whose two classfiles have the same base name, and let the
  two calls of \<open>extract_java_package\<close> return the packages \<open>expected_pkg\<close> and
  \<open>replayed_pkg\<close>. The replayed classfile is staged next, before the packages are
  compared, and \<open>sootdiff\<close> has not been run by then. If the staging raises (an already
  staged file gives \<open>FileExistsError\<close>), \<open>compare_classfiles\<close> raises the same
  exception, whatever the packages. If the staging succeeds and the packages differ, the
  function returns \<open>False\<close> (not \<open>None\<close>) in the state the staging left: \<open>sootdiff\<close> is
  not run. If the staging succeeds and the packages agree, the verdict is read off the
  run of \<open>sootdiff\<close>: \<open>None\<close> when the call raises (a timeout included) or when the
  output of the tool does not decode; otherwise \<open>True\<close> exactly when the return code is
  \<open>0\<close>, and \<open>False\<close> for every other code.
\<close>

theorem compare_classfiles_verdict:
  assumes names: "path_name (copy_abspath (expected pair)) = path_name (replayed pair)"
    and pe: "extract_java_package env (copy_abspath (expected pair)) s = (Inr expected_pkg, s1)"
    and pr: "extract_java_package env (replayed pair) s1 = (Inr replayed_pkg, s2)"
    and st: "copy_to_pkg_dir env (replayed pair) replayed_pkg
               (joinpath (copy_basedir (expected pair)) (parse_path merge_driver)) s2
             = (staged, s3)"
  shows "tool_runs ''sootdiff'' s3 = tool_runs ''sootdiff'' s
       \<and> (case staged of
            Inl e \<Rightarrow> compare_classfiles env pair eval_dir merge_driver s = (Inl e, s3)
          | Inr dst \<Rightarrow>
              if expected_pkg \<noteq> replayed_pkg
              then compare_classfiles env pair eval_dir merge_driver s = (Inr (Some False), s3)
              else fst (compare_classfiles env pair eval_dir merge_driver s) =
                     Inr (case fst (exec env
                             (sootdiff_cmd
                                (expected_pkg @ ''.'' @ path_stem (copy_abspath (expected pair)))
                                (joinpath (copy_basedir (expected pair)) (parse_path ''expected''))
                                (joinpath (copy_basedir (expected pair)) (parse_path merge_driver)))
                             (world s3)) of
                            Raised \<Rightarrow> None
                          | Completed returncode out err \<Rightarrow>
                              (case decode out of
                                 None \<Rightarrow> None
                               | Some output \<Rightarrow> Some (returncode = 0))))"
proof -
  have runs: "tool_runs ''sootdiff'' s3 = tool_runs ''sootdiff'' s"
  proof -
    have "tool_runs ''sootdiff'' s1 = tool_runs ''sootdiff'' s"
      using pe by (rule extract_java_package_runs) simp
    moreover have "tool_runs ''sootdiff'' s2 = tool_runs ''sootdiff'' s1"
      using pr by (rule extract_java_package_runs) simp
    moreover have "tool_runs ''sootdiff'' s3 = tool_runs ''sootdiff'' s2"
      using copy_to_pkg_dir_trace [OF st] by (simp add: tool_runs_def)
    ultimately show ?thesis by simp
  qed
  have verdict: "case staged of
            Inl e \<Rightarrow> compare_classfiles env pair eval_dir merge_driver s = (Inl e, s3)
          | Inr dst \<Rightarrow>
              if expected_pkg \<noteq> replayed_pkg
              then compare_classfiles env pair eval_dir merge_driver s = (Inr (Some False), s3)
              else fst (compare_classfiles env pair eval_dir merge_driver s) =
                     Inr (case fst (exec env
                             (sootdiff_cmd
                                (expected_pkg @ ''.'' @ path_stem (copy_abspath (expected pair)))
                                (joinpath (copy_basedir (expected pair)) (parse_path ''expected''))
                                (joinpath (copy_basedir (expected pair)) (parse_path merge_driver)))
                             (world s3)) of
                            Raised \<Rightarrow> None
                          | Completed returncode out err \<Rightarrow>
                              (case decode out of
                                 None \<Rightarrow> None
                               | Some output \<Rightarrow> Some (returncode = 0)))"
  proof (cases staged)
    case (Inl e)
    then show ?thesis
      using names pe pr st by (simp add: compare_classfiles_def Let_def bind_exn_def)
  next
    case (Inr dst)
    then show ?thesis
      using names pe pr st
      by (simp add: compare_classfiles_def Let_def bind_exn_def subprocess_run_def
          split: prod.splits proc.splits option.splits)
  qed
  show ?thesis
    using runs verdict by simp
qed

text \<open>
  \<open>Foo.class\<close> replayed in package \<open>c.d\<close> against the expected \<open>a.b\<close>: \<open>False\<close>, and
  only \<open>pkgextractor\<close> was run. Replayed in package \<open>a.b\<close>: \<open>True\<close> when \<open>sootdiff\<close>
  exits with \<open>0\<close>, \<open>False\<close> when it exits with \<open>1\<close>, \<open>None\<close> when the call raises.
\<close>

theorem compare_classfiles_verdict_witness:
  "compare_classfiles (simple_env (classfile_tools ''c.d\<newline>'' (Completed 0 [] [])) replayed_files)
     foo_pair [''eval''] ''spork'' start = (Inr (Some False), after_packages)
   \<and> tool_runs ''sootdiff'' after_packages = tool_runs ''sootdiff'' start
   \<and> fst (compare_classfiles
            (simple_env (classfile_tools ''a.b\<newline>'' (Completed 0 [] [])) replayed_files)
            foo_pair [''eval''] ''spork'' start) = Inr (Some True)
   \<and> fst (compare_classfiles
            (simple_env (classfile_tools ''a.b\<newline>'' (Completed 1 [] [])) replayed_files)
            foo_pair [''eval''] ''spork'' start) = Inr (Some False)
   \<and> fst (compare_classfiles
            (simple_env (classfile_tools ''a.b\<newline>'' Raised) replayed_files)
            foo_pair [''eval''] ''spork'' start) = Inr None"
proof -
  have differ:
    "compare_classfiles (simple_env (classfile_tools ''c.d\<newline>'' soot) replayed_files)
       foo_pair [''eval''] ''spork'' start = (Inr (Some False), after_packages)
     \<and> tool_runs ''sootdiff'' after_packages = tool_runs ''sootdiff'' start" for soot
    using compare_classfiles_verdict [OF foo_names
        foo_expected_package [where rp = "''c.d\<newline>''" and soot = soot]
        foo_replayed_package [where rp = "''c.d\<newline>''" and soot = soot, simplified]
        foo_staged [where pkg = "''c.d''" and rp = "''c.d\<newline>''" and soot = soot, simplified],
        where eval_dir = "[''eval'']"]
    by simp
  have agree:
    "fst (compare_classfiles (simple_env (classfile_tools ''a.b\<newline>'' soot) replayed_files)
            foo_pair [''eval''] ''spork'' start)
       = Inr (case soot of
                Raised \<Rightarrow> None
              | Completed returncode out err \<Rightarrow>
                  (case decode out of None \<Rightarrow> None | Some output \<Rightarrow> Some (returncode = 0)))"
    for soot
    using compare_classfiles_verdict [OF foo_names
        foo_expected_package [where rp = "''a.b\<newline>''" and soot = soot]
        foo_replayed_package [where rp = "''a.b\<newline>''" and soot = soot, simplified]
        foo_staged [where pkg = "''a.b''" and rp = "''a.b\<newline>''" and soot = soot, simplified],
        where eval_dir = "[''eval'']"]
    by (simp add: foo_sootdiff)
  show ?thesis
    using differ [of "Completed 0 [] []"] agree [of "Completed 0 [] []"]
      agree [of "Completed 1 [] []"] agree [of Raised]
    by (simp add: decode_empty)
qed

text \<open>
  The claim as it stands says that differing packages always give \<open>False\<close>, and that
  agreeing packages give \<open>True\<close> exactly when \<open>sootdiff\<close> exits with status zero. When
  \<open>Foo.class\<close> has already been staged for the package \<open>c.d\<close>, the differing packages
  \<open>a.b\<close> and \<open>c.d\<close> end in \<open>FileExistsError\<close>. When the packages agree and \<open>sootdiff\<close>
  exits with status zero after printing bytes that are not UTF-8, the verdict is \<open>None\<close>.
\<close>

theorem compare_classfiles_other_outcomes:
  "fst (extract_java_package staged_env (copy_abspath (expected foo_pair)) start) = Inr ''a.b''
   \<and> fst (extract_java_package staged_env (replayed foo_pair) start) = Inr ''c.d''
   \<and> compare_classfiles staged_env foo_pair [''eval''] ''spork'' start
       = (Inl FileExistsError, after_packages)
   \<and> fst (extract_java_package latin1_env (copy_abspath (expected foo_pair)) start) = Inr ''a.b''
   \<and> fst (extract_java_package latin1_env (replayed foo_pair) start) = Inr ''a.b''
   \<and> fst (exec latin1_env
            (sootdiff_cmd ''a.b.Foo'' [''eval'', ''expected''] [''eval'', ''spork'']) ())
       = Completed 0 latin1_output []
   \<and> fst (compare_classfiles latin1_env foo_pair [''eval''] ''spork'' start) = Inr None"
  by (simp add: compare_classfiles_def extract_java_package_def copy_to_pkg_dir_def
      subprocess_run_def sootdiff_cmd_def log_def bind_exn_def simple_env_def
      staged_env_def latin1_env_def
      classfile_tools_def replayed_files_def staged_files_def one_file_def foo_class_def
      foo_pair_def after_packages_def start_def path_defs string_defs decode_def
      latin1_output_def continuation_def)

section \<open>When \<open>pkgextractor\<close> fails\<close>

lemma str_foo: "str_path [''src'', ''Foo.java''] = ''src/Foo.java''"
  by (simp add: str_path_def is_absolute_def)

text \<open>
  C5, as amended. When the call of \<open>pkgextractor\<close> itself raises (the tool cannot be
  started, or the timeout expires), \<open>extract_java_package\<close> logs the exception and returns
  the empty string. When the tool runs and exits with a non-zero status, the function
  raises: it logs the output at level \<open>DEBUG\<close> and raises \<open>RuntimeError\<close> when the
  output decodes, and when the output does not decode the decoding raises
  \<open>UnicodeDecodeError\<close> and nothing is logged.
\<close>

theorem extract_java_package_failure:
  "(exec env [''pkgextractor'', str_path path] (world s) = (Raised, w) \<longrightarrow>
      extract_java_package env path s
        = (Inr [],
           s\<lparr>world := w,
             trace := trace s @ [Invoked [''pkgextractor'', str_path path], Logged ERROR]\<rparr>))
   \<and> (exec env [''pkgextractor'', str_path path] (world s) = (Completed returncode out err, w)
        \<longrightarrow> returncode \<noteq> 0 \<longrightarrow>
      extract_java_package env path s
        = (case decode out of
             None \<Rightarrow>
               (Inl UnicodeDecodeError,
                s\<lparr>world := w,
                  trace := trace s @ [Invoked [''pkgextractor'', str_path path]]\<rparr>)
           | Some output \<Rightarrow>
               (Inl RuntimeError,
                s\<lparr>world := w,
                  trace := trace s @ [Invoked [''pkgextractor'', str_path path],
                                      Logged DEBUG]\<rparr>)))"
  by (simp add: extract_java_package_def subprocess_run_def log_def split: option.splits)

text \<open>
  A tool that cannot be started gives the empty string; exit status 2 raises
  \<open>RuntimeError\<close> when the tool printed \<open>usage\<close>, and \<open>UnicodeDecodeError\<close> when it
  printed bytes that are not UTF-8.
\<close>

theorem extract_java_package_failure_witness:
  "extract_java_package (simple_env no_tools no_files) [''src'', ''Foo.java''] start
     = (Inr [],
        \<lparr>world = (), trace = [Invoked [''pkgextractor'', ''src/Foo.java''], Logged ERROR]\<rparr>)
   \<and> extract_java_package (simple_env (every_tool (Completed 2 ''usage'' [])) no_files)
        [''src'', ''Foo.java''] start
     = (Inl RuntimeError,
        \<lparr>world = (), trace = [Invoked [''pkgextractor'', ''src/Foo.java''], Logged DEBUG]\<rparr>)
   \<and> extract_java_package (simple_env (every_tool (Completed 2 latin1_output [])) no_files)
        [''src'', ''Foo.java''] start
     = (Inl UnicodeDecodeError,
        \<lparr>world = (), trace = [Invoked [''pkgextractor'', ''src/Foo.java'']]\<rparr>)"
proof -
  have a: "exec (simple_env no_tools no_files) [''pkgextractor'', str_path [''src'', ''Foo.java'']]
             (world start) = (Raised, ())"
    by (simp add: simple_env_def no_tools_def)
  have b: "exec (simple_env (every_tool (Completed 2 out [])) no_files)
             [''pkgextractor'', str_path [''src'', ''Foo.java'']] (world start)
           = (Completed 2 out [], ())" for out
    by (simp add: simple_env_def every_tool_def)
  have u: "decode ''usage'' = Some ''usage''"
    by (simp add: decode_ascii)
  show ?thesis
    using a b [of "''usage''"] b [of latin1_output]
      extract_java_package_failure [where env = "simple_env no_tools no_files"
        and path = "[''src'', ''Foo.java'']" and s = start and w = "()"]
      extract_java_package_failure
        [where env = "simple_env (every_tool (Completed 2 ''usage'' [])) no_files"
        and path = "[''src'', ''Foo.java'']" and s = start and w = "()" and returncode = 2
        and out = "''usage''" and err = "[]"]
      extract_java_package_failure
        [where env = "simple_env (every_tool (Completed 2 latin1_output [])) no_files"
        and path = "[''src'', ''Foo.java'']" and s = start and w = "()" and returncode = 2
        and out = latin1_output and err = "[]"]
    by (simp add: str_foo start_def u decode_latin1)
qed

text \<open>
  The claim as it stands says that a failing utility gives the empty string and no
  exception. A \<open>pkgextractor\<close> that exits with status 1 makes the function raise.
\<close>

theorem extract_java_package_raises:
  "extract_java_package (simple_env (every_tool (Completed 1 ''no package'' [])) no_files)
     [''src'', ''Foo.java''] start
   = (Inl RuntimeError,
      \<lparr>world = (), trace = [Invoked [''pkgextractor'', ''src/Foo.java''], Logged DEBUG]\<rparr>)"
  by (simp add: extract_java_package_def subprocess_run_def log_def simple_env_def every_tool_def
      str_foo start_def decode_ascii)

section \<open>The classfiles of a source file that is not there\<close>

text \<open>
  When the source file is there and \<open>locate_classfiles\<close> returns, it returns the pair of
  a sorted list and the package name.
\<close>

lemma locate_classfiles_found:
  assumes "is_file env src (world s)"
    and "locate_classfiles env src basedir s = (Inr r, s')"
  shows "\<exists>classfiles pkg. r = WithPackage classfiles pkg \<and> sorted classfiles"
  using assms
  by (auto simp: locate_classfiles_def bind_exn_def split: prod.splits sum.splits)

text \<open>
  C6. The claim: \<open>locate_classfiles\<close> returns a sorted list with the package name, and
  for a source path that is not a file it logs a warning and returns an empty result of
  that same shape, raising nothing. The code logs the warning and raises nothing, but
  what it returns then is the bare empty list of its first \<open>return\<close>, not a pair of a
  list and a package name.
\<close>

theorem locate_classfiles_missing_source:
  assumes "\<not> is_file env src (world s)"
  shows "locate_classfiles env src basedir s = (Inr (Bare []), log WARNING s)
       \<and> (\<forall>classfiles pkg. fst (locate_classfiles env src basedir s)
              \<noteq> Inr (WithPackage classfiles pkg))"
  using assms by (simp add: locate_classfiles_def)

theorem locate_classfiles_missing_source_witness:
  "\<not> is_file (simple_env no_tools no_files) [''src'', ''Foo.java''] (world start)
   \<and> locate_classfiles (simple_env no_tools no_files) [''src'', ''Foo.java''] [''target''] start
       = (Inr (Bare []), \<lparr>world = (), trace = [Logged WARNING]\<rparr>)"
proof -
  have m: "\<not> is_file (simple_env no_tools no_files) [''src'', ''Foo.java''] (world start)"
    by (simp add: simple_env_def no_files_def)
  show ?thesis
    using m locate_classfiles_missing_source [OF m, of "[''target'']"]
    by (simp add: log_def start_def)
qed

section \<open>The edit script of \<open>git diff\<close>\<close>

lemma decode_diff: "decode diff_output = Some diff_output"
  by (rule decode_ascii) (simp add: diff_output_def)

lemma split_diff:
  "py_split nl (py_rstrip diff_output) =
     [''diff --git a/A.java b/B.java'', ''index 1..2 100644'', ''--- a/A.java'',
      ''+++ b/B.java'', ''@@ -1 +1 @@'', ''-int a;'', ''+int b;'']"
  by (simp add: diff_output_def string_defs)

text \<open>
  C7, as amended. Let \<open>git diff\<close> complete with some return code. With return code
  zero the edit script is empty. With a non-zero return code the output is decoded, and
  output that does not decode makes the function raise \<open>UnicodeDecodeError\<close>. With a
  non-zero return code, output that decodes and no stripping, the edit script is the
  output without its trailing whitespace, split into lines, and it is never empty: so
  without stripping an edit script is empty exactly when the return code is zero. With a
  non-zero return code, output that decodes and stripping, the edit script is what follows
  the first four lines of that output, without the lines that begin with \<open>@@\<close>; it is
  empty when nothing is left.
\<close>

theorem git_diff_edit_script_result:
  assumes "exec env (git_diff @ [str_path base, str_path dest]) (world s)
             = (Completed returncode out err, w)"
  shows "(returncode = 0 \<longrightarrow>
            fst (git_diff_edit_script env base dest strip_metadata s) = Inr [])
       \<and> (returncode \<noteq> 0 \<longrightarrow> decode out = None \<longrightarrow>
            fst (git_diff_edit_script env base dest strip_metadata s) = Inl UnicodeDecodeError)
       \<and> (returncode \<noteq> 0 \<longrightarrow> decode out = Some decoded \<longrightarrow> \<not> strip_metadata \<longrightarrow>
            fst (git_diff_edit_script env base dest strip_metadata s)
              = Inr (py_split nl (py_rstrip decoded))
            \<and> py_split nl (py_rstrip decoded) \<noteq> [])
       \<and> (returncode \<noteq> 0 \<longrightarrow> decode out = Some decoded \<longrightarrow> strip_metadata \<longrightarrow>
            fst (git_diff_edit_script env base dest strip_metadata s)
              = Inr (filter (\<lambda>line. \<not> startswith line ''@@'')
                       (drop 4 (py_split nl (py_rstrip decoded)))))"
  using assms by (simp add: git_diff_edit_script_def subprocess_run_def py_split_nonempty)

text \<open>
  No difference; a difference of one line, unstripped (seven lines) and stripped (the
  two changed lines); a difference printed in Latin-1.
\<close>

theorem git_diff_edit_script_result_witness:
  "fst (git_diff_edit_script (simple_env (every_tool (Completed 0 [] [])) no_files)
          [''A.java''] [''B.java''] True start) = Inr []
   \<and> fst (git_diff_edit_script (simple_env (every_tool (Completed 1 diff_output [])) no_files)
          [''A.java''] [''B.java''] False start)
       = Inr [''diff --git a/A.java b/B.java'', ''index 1..2 100644'', ''--- a/A.java'',
              ''+++ b/B.java'', ''@@ -1 +1 @@'', ''-int a;'', ''+int b;'']
   \<and> fst (git_diff_edit_script (simple_env (every_tool (Completed 1 diff_output [])) no_files)
          [''A.java''] [''B.java''] True start)
       = Inr [''-int a;'', ''+int b;'']
   \<and> fst (git_diff_edit_script (simple_env (every_tool (Completed 1 latin1_output [])) no_files)
          [''A.java''] [''B.java''] False start)
       = Inl UnicodeDecodeError"
proof -
  have e: "exec (simple_env (every_tool p) no_files) (git_diff @ [str_path a, str_path b])
             (world start) = (p, ())" for p a b
    by (simp add: simple_env_def every_tool_def)
  show ?thesis
    using git_diff_edit_script_result [OF e, where returncode = 0 and out = "[]" and err = "[]"
        and base = "[''A.java'']" and dest = "[''B.java'']" and strip_metadata = True]
      git_diff_edit_script_result [OF e, where returncode = 1 and out = diff_output and err = "[]"
        and base = "[''A.java'']" and dest = "[''B.java'']" and strip_metadata = False
        and decoded = diff_output]
      git_diff_edit_script_result [OF e, where returncode = 1 and out = diff_output and err = "[]"
        and base = "[''A.java'']" and dest = "[''B.java'']" and strip_metadata = True
        and decoded = diff_output]
      git_diff_edit_script_result [OF e, where returncode = 1 and out = latin1_output
        and err = "[]" and base = "[''A.java'']" and dest = "[''B.java'']"
        and strip_metadata = False]
    by (simp add: split_diff decode_diff decode_latin1 startswith_def)
qed

text \<open>
  The claim as it stands says that the edit script is empty exactly when the return code
  is zero. For two binary files \<open>git diff\<close> exits with status 1 and prints three lines;
  with stripping, the edit script is empty.
\<close>

theorem git_diff_edit_script_empty_nonzero:
  "exec (simple_env (every_tool (Completed 1 binary_diff_output [])) no_files)
      (git_diff @ [str_path [''A.class''], str_path [''B.class'']]) (world start)
     = (Completed 1 binary_diff_output [], ())
   \<and> fst (git_diff_edit_script
            (simple_env (every_tool (Completed 1 binary_diff_output [])) no_files)
            [''A.class''] [''B.class''] True start) = Inr []"
  by (simp add: git_diff_edit_script_def subprocess_run_def simple_env_def every_tool_def
      binary_diff_output_def string_defs decode_def)

section \<open>A failing tree diff and a failing tree distance\<close>

text \<open>
  C8, as amended. When \<open>gumtree diff\<close> exits with a non-zero status,
  \<open>gumtree_edit_script\<close> raises: \<open>RuntimeError\<close> when the error output of the tool
  decodes, \<open>UnicodeDecodeError\<close> when it does not. When \<open>spork compare\<close> exits with a
  non-zero status and its error output decodes, \<open>normalized_comparison\<close> logs a warning and
  returns \<open>-1\<close>, raising nothing; when the error output does not decode, the decoding
  raises \<open>UnicodeDecodeError\<close> before anything is logged.
\<close>

theorem tool_failures:
  "(exec env [''gumtree'', ''diff'', str_path base, str_path dest] (world s)
      = (Completed returncode out err, w) \<and> returncode \<noteq> 0 \<longrightarrow>
    gumtree_edit_script env base dest s
      = (Inl (if decode err = None then UnicodeDecodeError else RuntimeError),
         s\<lparr>world := w,
           trace := trace s @ [Invoked [''gumtree'', ''diff'', str_path base, str_path dest]]\<rparr>))
   \<and> (exec env [''spork'', ''compare'', str_path base, str_path dest] (world s)
        = (Completed returncode out err, w) \<and> returncode \<noteq> 0 \<longrightarrow>
      normalized_comparison env base dest s
        = (if decode err = None
           then (Inl UnicodeDecodeError,
                 s\<lparr>world := w,
                   trace := trace s @ [Invoked [''spork'', ''compare'', str_path base,
                                                str_path dest]]\<rparr>)
           else (Inr (- 1),
                 s\<lparr>world := w,
                   trace := trace s @ [Invoked [''spork'', ''compare'', str_path base,
                                                str_path dest], Logged WARNING]\<rparr>)))"
  by (auto simp: gumtree_edit_script_def normalized_comparison_def subprocess_run_def log_def
      split: option.splits)

text \<open>Both tools exit with status 1 after printing \<open>syntax error\<close>.\<close>

theorem tool_failures_witness:
  "gumtree_edit_script (simple_env (every_tool (Completed 1 [] ''syntax error'')) no_files)
     [''A.java''] [''B.java''] start
     = (Inl RuntimeError,
        \<lparr>world = (), trace = [Invoked [''gumtree'', ''diff'', ''A.java'', ''B.java'']]\<rparr>)
   \<and> normalized_comparison (simple_env (every_tool (Completed 1 [] ''syntax error'')) no_files)
       [''A.java''] [''B.java''] start
     = (Inr (- 1),
        \<lparr>world = (), trace = [Invoked [''spork'', ''compare'', ''A.java'', ''B.java''],
                              Logged WARNING]\<rparr>)"
proof -
  have e: "exec (simple_env (every_tool (Completed 1 [] ''syntax error'')) no_files) cmd
             (world start) = (Completed 1 [] ''syntax error'', ())" for cmd
    by (simp add: simple_env_def every_tool_def)
  have d: "decode ''syntax error'' = Some ''syntax error''"
    by (simp add: decode_ascii)
  show ?thesis
    using e d tool_failures
        [where env = "simple_env (every_tool (Completed 1 [] ''syntax error'')) no_files"
        and base = "[''A.java'']" and dest = "[''B.java'']" and s = start and returncode = 1
        and out = "[]" and err = "''syntax error''" and w = "()"]
    by (simp add: str_path_def is_absolute_def start_def)
qed

text \<open>
  The claim as it stands says that a non-zero exit status of \<open>spork compare\<close> never
  propagates an error. When the tool exits with status 1 and its error output is not
  UTF-8, \<open>normalized_comparison\<close> raises \<open>UnicodeDecodeError\<close> and logs nothing.
\<close>

theorem normalized_comparison_raises:
  "normalized_comparison (simple_env (every_tool (Completed 1 [] latin1_output)) no_files)
     [''A.java''] [''B.java''] start
   = (Inl UnicodeDecodeError,
      \<lparr>world = (), trace = [Invoked [''spork'', ''compare'', ''A.java'', ''B.java'']]\<rparr>)"
  by (simp add: normalized_comparison_def subprocess_run_def simple_env_def every_tool_def
      str_path_def is_absolute_def start_def decode_latin1)

section \<open>Configuration errors\<close>

text \<open>
  C9. When the base names of the expected and the replayed classfile differ,
  \<open>compare_classfiles\<close> raises \<open>ValueError\<close> and has done nothing else: the state of
  the run is unchanged (no tool was run, nothing was staged). When the path does not have
  the suffix \<open>.class\<close>, \<open>remove_duplicate_checkcasts\<close> raises \<open>ValueError\<close> and has not
  run the canonicalization tool: the state is unchanged.
\<close>

theorem configuration_errors:
  "(path_name (copy_abspath (expected pair)) \<noteq> path_name (replayed pair) \<longrightarrow>
      compare_classfiles env pair eval_dir merge_driver s = (Inl ValueError, s))
   \<and> (path_suffix path \<noteq> ''.class'' \<longrightarrow>
      remove_duplicate_checkcasts env path s = (Inl ValueError, s))"
  by (simp add: compare_classfiles_def remove_duplicate_checkcasts_def)

theorem configuration_errors_witness:
  "compare_classfiles (simple_env (every_tool (Completed 0 [] [])) no_files) mismatched_pair
     [''eval''] ''spork'' start = (Inl ValueError, start)
   \<and> remove_duplicate_checkcasts (simple_env (every_tool (Completed 0 [] [])) no_files)
       [''src'', ''Foo.java''] start = (Inl ValueError, start)"
proof -
  have n: "path_name (copy_abspath (expected mismatched_pair))
             \<noteq> path_name (replayed mismatched_pair)"
    by (simp add: mismatched_pair_def foo_class_def path_name_def)
  have x: "path_suffix [''src'', ''Foo.java''] \<noteq> ''.class''"
    by (simp add: path_suffix_def path_name_def rfind_dot_def)
  show ?thesis
    using n x configuration_errors
        [where pair = mismatched_pair and path = "[''src'', ''Foo.java'']"
        and env = "simple_env (every_tool (Completed 0 [] [])) no_files" and s = start
        and eval_dir = "[''eval'']" and merge_driver = "''spork''"]
    by simp
qed

section \<open>An expected classfile with no replayed classfile\<close>

lemma run_pairs_append:
  "run_pairs env ed md (xs @ ys) s =
     (case run_pairs env ed md xs s of
        (a, Some e, s1) \<Rightarrow> (a, Some e, s1)
      | (a, None, s1) \<Rightarrow> (case run_pairs env ed md ys s1 of (b, r, s2) \<Rightarrow> (a @ b, r, s2)))"
  by (induction xs arbitrary: s) (auto split: prod.splits sum.splits option.splits)

lemma foo_compared:
  "compare_compiled_bytecode equal_env [''replayed''] [foo_class] [''eval''] ''spork'' start
     = ([(foo_pair, Some True)], None, after_foo)"
  by (simp add: compare_compiled_bytecode_def generate_classfile_pairs_def compare_pair_def
      remove_duplicate_checkcasts_def compare_classfiles_def extract_java_package_def
      copy_to_pkg_dir_def subprocess_run_def sootdiff_cmd_def log_def bind_exn_def
      equal_env_def simple_env_def classfile_tools_def replayed_files_def one_file_def
      foo_class_def foo_pair_def after_foo_def start_def path_defs string_defs decode_def)

text \<open>
  C10. Let \<open>compare_compiled_bytecode\<close> have gone through the earlier expected
  classfiles without an exception, and let the replayed classfile of the next one, \<open>e\<close>,
  not be a file then. The generator yields the pair of \<open>e\<close> with the verdict \<open>False\<close>
  (not \<open>None\<close>) right after what it has yielded so far. All it does for this pair is
  log one warning: no tool is run for it, and the later classfiles are processed from
  the state with that warning added.
\<close>

theorem missing_replayed_classfile:
  assumes before: "compare_compiled_bytecode env basedir earlier eval_dir merge_driver s
                     = (ys, None, s1)"
    and missing: "\<not> is_file env (joinpath basedir (original_relpath e)) (world s1)"
  shows "\<exists>zs r s2.
           compare_compiled_bytecode env basedir (earlier @ e # later) eval_dir merge_driver s
             = (ys @ (\<lparr>expected = e, replayed = joinpath basedir (original_relpath e)\<rparr>,
                      Some False) # zs, r, s2)
           \<and> compare_compiled_bytecode env basedir later eval_dir merge_driver (log WARNING s1)
               = (zs, r, s2)
           \<and> logged WARNING (log WARNING s1) = logged WARNING s1 + 1
           \<and> tool_runs ''duplicate-checkcast-remover'' (log WARNING s1)
               = tool_runs ''duplicate-checkcast-remover'' s1
           \<and> tool_runs ''sootdiff'' (log WARNING s1) = tool_runs ''sootdiff'' s1"
proof -
  obtain zs r s2 where rest:
    "compare_compiled_bytecode env basedir later eval_dir merge_driver (log WARNING s1)
       = (zs, r, s2)"
    by (metis prod_cases3)
  have "compare_compiled_bytecode env basedir (earlier @ e # later) eval_dir merge_driver s
          = (ys @ (\<lparr>expected = e, replayed = joinpath basedir (original_relpath e)\<rparr>,
                   Some False) # zs, r, s2)"
    using before missing rest
    by (simp add: compare_compiled_bytecode_def generate_classfile_pairs_def run_pairs_append
        compare_pair_def)
  with rest show ?thesis
    by (simp add: log_runs log_logged)
qed

text \<open>
  \<open>Foo.class\<close> was replayed and compares equal; \<open>Bar.class\<close> was not: its verdict is
  \<open>False\<close>, and the run ends with the warning.
\<close>

theorem missing_replayed_classfile_witness:
  "compare_compiled_bytecode equal_env [''replayed''] [foo_class, bar_class] [''eval''] ''spork''
     start
   = ([(foo_pair, Some True),
       (\<lparr>expected = bar_class,
         replayed = [''replayed'', ''target'', ''classes'', ''a'', ''b'', ''Bar.class'']\<rparr>,
        Some False)],
      None, log WARNING after_foo)"
proof -
  have missing: "\<not> is_file equal_env (joinpath [''replayed''] (original_relpath bar_class))
                    (world after_foo)"
    by (simp add: equal_env_def simple_env_def replayed_files_def one_file_def bar_class_def
        joinpath_def is_absolute_def)
  have rest: "compare_compiled_bytecode equal_env [''replayed''] [] [''eval''] ''spork''
                (log WARNING after_foo) = ([], None, log WARNING after_foo)"
    by (simp add: compare_compiled_bytecode_def generate_classfile_pairs_def)
  have j: "joinpath [''replayed''] (original_relpath bar_class)
             = [''replayed'', ''target'', ''classes'', ''a'', ''b'', ''Bar.class'']"
    by (simp add: bar_class_def joinpath_def is_absolute_def)
  show ?thesis
    using missing_replayed_classfile [OF foo_compared missing, where later = "[]"] rest j
    by auto
qed

end
